theory Spec2Isabelle
  imports Main
begin

section \<open>Python values: exceptions, strings, dates\<close>

text \<open>
  Exceptions are values. Only subclasses of Python's \<open>Exception\<close> are modelled: they are
  what the scrapers and the libraries under them raise, and what \<open>except Exception\<close> in
  \<open>main\<close> catches. A function that can raise returns \<open>exn + 'a\<close>, with \<open>Inl\<close> the raise.
\<close>

datatype exn_kind =
    ValueError | OverflowError | TypeError | AttributeError | KeyError | RuntimeError
  | EconomicCalendarError | EarningsCalendarError | TwitterScraperError | RedditScraperError
  | RequestException

datatype exn = Exn (kind: exn_kind) (message: string)

text \<open>
  A \<open>char\<close> stands for one code point below U+0100; \<open>isspace\<close> is \<open>str.isspace\<close> on
  that range, which is the set of characters \<open>str.strip()\<close> removes.
\<close>

definition isspace :: "char \<Rightarrow> bool" where
  "isspace c \<longleftrightarrow> (of_char c :: int) \<in> {9, 10, 11, 12, 13, 28, 29, 30, 31, 32, 133, 160}"

definition lstrip :: "string \<Rightarrow> string" where
  "lstrip s = dropWhile isspace s"

definition rstrip :: "string \<Rightarrow> string" where
  "rstrip s = rev (dropWhile isspace (rev s))"

definition strip :: "string \<Rightarrow> string" where
  "strip s = rstrip (lstrip s)"

text \<open>\<open>s.lstrip(chars)\<close>: drops every leading character that occurs in \<open>chars\<close>.\<close>

definition lstrip_chars :: "string \<Rightarrow> string \<Rightarrow> string" where
  "lstrip_chars chars s = dropWhile (\<lambda>c. c \<in> set chars) s"

text \<open>\<open>sep.join(xs)\<close>.\<close>

fun join :: "string \<Rightarrow> string list \<Rightarrow> string" where
  "join sep [] = []"
| "join sep [x] = x"
| "join sep (x # y # ys) = x @ sep @ join sep (y # ys)"

text \<open>\<open>x or ''\<close> for \<open>x : Optional[str]\<close>: \<open>None\<close> and the empty string are both falsy.\<close>

fun or_empty :: "string option \<Rightarrow> string" where
  "or_empty None = ''''"
| "or_empty (Some s) = s"

text \<open>
  A \<open>datetime.date\<close> is its proleptic Gregorian ordinal (\<open>date.toordinal()\<close>), which is how
  \<open>date + timedelta\<close> and the comparisons of dates compute; \<open>date.min\<close> is ordinal 1 and
  \<open>date.max\<close> (9999-12-31) is ordinal 3652059.
\<close>

type_synonym date = int

definition MAXORDINAL :: int where
  "MAXORDINAL = 3652059"

definition valid_date :: "date \<Rightarrow> bool" where
  "valid_date d \<longleftrightarrow> 1 \<le> d \<and> d \<le> MAXORDINAL"

text \<open>\<open>timedelta(days=n)\<close> raises OverflowError beyond a magnitude of 999999999 days.\<close>

definition timedelta :: "int \<Rightarrow> exn + int" where
  "timedelta days =
     (if \<bar>days\<bar> \<le> 999999999 then Inr days
      else Inl (Exn OverflowError ''days; must have magnitude <= 999999999''))"

text \<open>\<open>date.__add__\<close>: the sum of the ordinals, or OverflowError outside \<open>date.min..date.max\<close>.\<close>

definition date_add :: "date \<Rightarrow> int \<Rightarrow> exn + date" where
  "date_add d days =
     (let ord = d + days
      in if 0 < ord \<and> ord \<le> MAXORDINAL then Inr ord
         else Inl (Exn OverflowError ''date value out of range''))"

record datetime =
  dt_year :: nat
  dt_month :: nat
  dt_day :: nat
  dt_hour :: nat
  dt_minute :: nat
  dt_second :: nat
  dt_tzname :: "string option"

text \<open>
  The formatting and parsing routines of Python's standard library are parameters of the
  model: \<open>strftime_date fmt d\<close> is \<open>d.strftime(fmt)\<close>, \<open>strptime s fmt\<close> is
  \<open>datetime.strptime(s, fmt)\<close> with its raise as \<open>Inl\<close>, \<open>gmtime t\<close> is the calendar
  reading of a POSIX timestamp inside the range of years 1..9999, \<open>getenv\<close> is the process
  environment and \<open>today\<close> is \<open>date.today()\<close>.
\<close>

record lib =
  strftime_date :: "string \<Rightarrow> date \<Rightarrow> string"
  strftime_datetime :: "string \<Rightarrow> datetime \<Rightarrow> string"
  strptime :: "string \<Rightarrow> string \<Rightarrow> exn + datetime"
  str_datetime :: "datetime \<Rightarrow> string"
  gmtime :: "int \<Rightarrow> datetime"
  float_of_str :: "string \<Rightarrow> exn + int"
  getenv :: "string \<Rightarrow> string option"
  today :: date

section \<open>ReportGenerator.py: the request window\<close>

text \<open>\<open>_daterange\<close>: \<open>end = start + timedelta(days=max(0, lookahead))\<close>.\<close>

definition daterange :: "date \<Rightarrow> int \<Rightarrow> exn + date \<times> date" where
  "daterange start lookahead =
     (case timedelta (max 0 lookahead) of
        Inl e \<Rightarrow> Inl e
      | Inr td \<Rightarrow> (case date_add start td of
                    Inl e \<Rightarrow> Inl e
                  | Inr end_date \<Rightarrow> Inr (start, end_date)))"

section \<open>The network\<close>

text \<open>
  A collector reaches its provider through \<open>session.get\<close>. The provider is an oracle that
  answers a request given the requests made before it, either by raising (a transport error
  or a timeout) or with a response: the status code and the decoded body, \<open>None\<close> when
  \<open>response.json()\<close> raises. Every call is appended to the log of outbound requests, which is
  the network-call counter of the specification. Request headers and timeouts do not
  influence any result and are left out of a request.
\<close>

record request =
  req_url :: string
  req_params :: "(string \<times> string) list"

datatype 'j response = Response (status_code: int) (json: "'j option")

type_synonym 'j net = "request list \<Rightarrow> request \<Rightarrow> exn + 'j response"

definition session_get ::
  "'j net \<Rightarrow> request \<Rightarrow> request list \<Rightarrow> (exn + 'j response) \<times> request list" where
  "session_get net req log = (net log req, log @ [req])"

text \<open>
  \<open>response.raise_for_status()\<close> raises HTTPError for the status codes 400..599; the
  wording of its message, which names the status and the URL, is not modelled.
\<close>

definition raise_for_status :: "'j response \<Rightarrow> string option" where
  "raise_for_status r =
     (if 400 \<le> status_code r \<and> status_code r < 600 then Some ''HTTPError'' else None)"

text \<open>A \<open>dict\<close> keeps insertion order: an association list, updated in place or extended.\<close>

fun dict_set :: "('k \<times> 'v) list \<Rightarrow> 'k \<Rightarrow> 'v \<Rightarrow> ('k \<times> 'v) list" where
  "dict_set [] k v = [(k, v)]"
| "dict_set ((k', v') # d) k v = (if k' = k then (k, v) # d else (k', v') # dict_set d k v)"

abbreviation nl :: string where
  "nl \<equiv> [CHR 0x0A]"

section \<open>EconScraper.py\<close>

text \<open>
  The values of a Trading Economics event: JSON null, booleans, integers and strings, and
  \<open>datetime\<close> objects, which \<open>release_time\<close> tests for. JSON floats, arrays and objects as
  field values are outside the embedding.
\<close>

datatype pyval = PNone | PBool bool | PInt int | PStr string | PDatetime datetime

text \<open>A JSON object as the \<open>dict\<close> it decodes to: every key occurs once.\<close>

type_synonym payload = "(string \<times> pyval) list"

fun truthy :: "pyval \<Rightarrow> bool" where
  "truthy PNone = False"
| "truthy (PBool b) = b"
| "truthy (PInt i) = (i \<noteq> 0)"
| "truthy (PStr s) = (s \<noteq> [])"
| "truthy (PDatetime d) = True"

definition py_or :: "pyval \<Rightarrow> pyval \<Rightarrow> pyval" where
  "py_or a b = (if truthy a then a else b)"

text \<open>\<open>d.get(k)\<close> and \<open>d.get(k, default)\<close>: the default stands in for a missing key only.\<close>

definition dict_get_default :: "payload \<Rightarrow> string \<Rightarrow> pyval \<Rightarrow> pyval" where
  "dict_get_default d k dflt = (case map_of d k of None \<Rightarrow> dflt | Some v \<Rightarrow> v)"

definition dict_get :: "payload \<Rightarrow> string \<Rightarrow> pyval" where
  "dict_get d k = dict_get_default d k PNone"

text \<open>The decimal digits of a number that is not negative, and \<open>str(i)\<close> for an integer.\<close>

function show_digits :: "int \<Rightarrow> string" where
  "show_digits n =
     (if n < 10 then [char_of (48 + n)] else show_digits (n div 10) @ [char_of (48 + n mod 10)])"
  by pat_completeness auto
termination
  by (relation "measure nat") auto

declare show_digits.simps [simp del]

definition show_int :: "int \<Rightarrow> string" where
  "show_int i = (if i < 0 then CHR ''-'' # show_digits (- i) else show_digits i)"

text \<open>\<open>str(v)\<close>, which is also what \<open>str.format\<close> inserts for a \<open>{name}\<close> field.\<close>

fun py_str :: "lib \<Rightarrow> pyval \<Rightarrow> string" where
  "py_str L PNone = ''None''"
| "py_str L (PBool b) = (if b then ''True'' else ''False'')"
| "py_str L (PInt i) = show_int i"
| "py_str L (PStr s) = s"
| "py_str L (PDatetime d) = str_datetime L d"

datatype EconomicEvent = EconomicEvent (as_dict: payload)

definition country :: "EconomicEvent \<Rightarrow> pyval" where
  "country ev = py_or (dict_get (as_dict ev) ''Country'') (dict_get (as_dict ev) ''country'')"

definition category :: "EconomicEvent \<Rightarrow> pyval" where
  "category ev = py_or (dict_get (as_dict ev) ''Category'') (dict_get (as_dict ev) ''category'')"

definition event :: "EconomicEvent \<Rightarrow> pyval" where
  "event ev = py_or (dict_get (as_dict ev) ''Event'') (dict_get (as_dict ev) ''event'')"

text \<open>
  The loop of \<open>release_time\<close> over the accepted formats: \<open>except ValueError: continue\<close>
  goes on to the next format, any other exception leaves the loop, and running out of
  formats returns \<open>None\<close>.
\<close>

fun try_formats :: "lib \<Rightarrow> string \<Rightarrow> string list \<Rightarrow> exn + datetime option" where
  "try_formats L s [] = Inr None"
| "try_formats L s (fmt # fmts) =
     (case strptime L s fmt of
        Inr d \<Rightarrow> Inr (Some d)
      | Inl e \<Rightarrow> if kind e = ValueError then try_formats L s fmts else Inl e)"

definition release_formats :: "string list" where
  "release_formats = [''%Y-%m-%dT%H:%M:%S'', ''%Y-%m-%dT%H:%M:%SZ'']"

definition release_time :: "lib \<Rightarrow> EconomicEvent \<Rightarrow> exn + datetime option" where
  "release_time L ev =
     (let release = py_or (dict_get (as_dict ev) ''DateUTC'') (dict_get (as_dict ev) ''date'')
      in if \<not> truthy release then Inr None
         else (case release of
                 PDatetime d \<Rightarrow> Inr (Some d)
               | _ \<Rightarrow> try_formats L (py_str L release) release_formats))"

definition ECON_BASE_URL :: string where
  "ECON_BASE_URL = ''https://api.tradingeconomics.com/calendar''"

definition DATE_FORMAT :: string where
  "DATE_FORMAT = ''%Y-%m-%d''"

text \<open>\<open>os.getenv(name, default)\<close> and \<open>client or os.getenv(...)\<close>.\<close>

definition getenv_default :: "lib \<Rightarrow> string \<Rightarrow> string \<Rightarrow> string" where
  "getenv_default L name dflt = (case getenv L name of None \<Rightarrow> dflt | Some v \<Rightarrow> v)"

definition resolve_credentials :: "lib \<Rightarrow> string option \<Rightarrow> string option \<Rightarrow> string" where
  "resolve_credentials L client secret =
     (let resolved_client =
            (if or_empty client \<noteq> [] then or_empty client
             else getenv_default L ''TRADING_ECONOMICS_CLIENT'' ''guest'');
          resolved_secret =
            (if or_empty secret \<noteq> [] then or_empty secret
             else getenv_default L ''TRADING_ECONOMICS_SECRET'' ''guest'')
      in resolved_client @ '':'' @ resolved_secret)"

text \<open>\<open>if xs:\<close> for an optional sequence: neither \<open>None\<close> nor empty.\<close>

fun nonempty_seq :: "'a list option \<Rightarrow> bool" where
  "nonempty_seq None = False"
| "nonempty_seq (Some xs) = (xs \<noteq> [])"

definition build_params ::
  "lib \<Rightarrow> date \<Rightarrow> date \<Rightarrow> string list option \<Rightarrow> string list option \<Rightarrow> string list option
     \<Rightarrow> exn + (string \<times> string) list" where
  "build_params L start end_date importance countries categories =
     (if end_date < start then Inl (Exn ValueError ''end date must be after start date'')
      else
        (let params = [(''start'', strftime_date L DATE_FORMAT start),
                       (''end'', strftime_date L DATE_FORMAT end_date),
                       (''format'', ''json'')];
             params = (if nonempty_seq importance
                       then dict_set params ''importance'' (join '','' (the importance))
                       else params);
             params = (if nonempty_seq countries
                       then dict_set params ''country'' (join '','' (the countries))
                       else params);
             params = (if nonempty_seq categories
                       then dict_set params ''category'' (join '','' (the categories))
                       else params)
         in Inr params))"

text \<open>
  The decoded body of the calendar endpoint: a JSON array of event objects, or anything
  else (\<open>not isinstance(payload, list)\<close>).
\<close>

datatype econ_json = EconList "payload list" | EconNotList

definition fetch_economic_calendar ::
  "lib \<Rightarrow> econ_json net \<Rightarrow> date option \<Rightarrow> date option
     \<Rightarrow> string list option \<Rightarrow> string list option \<Rightarrow> string list option
     \<Rightarrow> string option \<Rightarrow> string option
     \<Rightarrow> request list \<Rightarrow> (exn + EconomicEvent list) \<times> request list" where
  "fetch_economic_calendar L net start end_date importance countries categories client secret log =
     (let start = (case start of None \<Rightarrow> today L | Some d \<Rightarrow> d);
          end_date = (case end_date of None \<Rightarrow> start | Some d \<Rightarrow> d)
      in case build_params L start end_date importance countries categories of
           Inl e \<Rightarrow> (Inl e, log)
         | Inr params \<Rightarrow>
             (let params = dict_set params ''c'' (resolve_credentials L client secret)
              in case session_get net \<lparr>req_url = ECON_BASE_URL, req_params = params\<rparr> log of
                   (Inl e, log') \<Rightarrow> (Inl e, log')
                 | (Inr response, log') \<Rightarrow>
                     (case raise_for_status response of
                        Some msg \<Rightarrow> (Inl (Exn EconomicCalendarError msg), log')
                      | None \<Rightarrow>
                          (case json response of
                             None \<Rightarrow>
                               (Inl (Exn EconomicCalendarError ''Invalid JSON returned from API''), log')
                           | Some EconNotList \<Rightarrow>
                               (Inl (Exn EconomicCalendarError ''Unexpected payload structure''), log')
                           | Some (EconList items) \<Rightarrow> (Inr (map EconomicEvent items), log')))))"

definition econ_header :: string where
  "econ_header =
     ''| Date | Time (UTC) | Country | Event | Actual | Forecast | Previous |'' @ nl @
     ''|---|---|---|---|---|---|---|''"

definition econ_row :: "lib \<Rightarrow> EconomicEvent \<Rightarrow> string" where
  "econ_row L ev =
     (let data = as_dict ev;
          when = py_or (py_or (dict_get data ''DateUtc'') (dict_get data ''DateUTC''))
                       (dict_get data ''Date'');
          time = py_or (dict_get data ''Time'') (PStr [])
      in ''| '' @ py_str L (py_or when (PStr [])) @
         '' | '' @ py_str L time @
         '' | '' @ py_str L (dict_get_default data ''Country'' (PStr [])) @
         '' | '' @ py_str L (dict_get_default data ''Event'' (PStr [])) @
         '' | '' @ py_str L (dict_get_default data ''Actual'' (PStr [])) @
         '' | '' @ py_str L (dict_get_default data ''Forecast'' (PStr [])) @
         '' | '' @ py_str L (dict_get_default data ''Previous'' (PStr [])) @ '' |'')"

text \<open>\<open>for event in events: rows.append(...)\<close>, with \<open>rows\<close> the rows appended so far.\<close>

fun events_rows :: "lib \<Rightarrow> EconomicEvent list \<Rightarrow> string list \<Rightarrow> string list" where
  "events_rows L [] rows = rows"
| "events_rows L (ev # events) rows = events_rows L events (rows @ [econ_row L ev])"

definition events_to_markdown :: "lib \<Rightarrow> EconomicEvent list \<Rightarrow> string" where
  "events_to_markdown L events =
     (if events = [] then ''No economic events found.'' @ nl
      else join nl (econ_header # events_rows L events []) @ nl)"

section \<open>EarningsScraper.py\<close>

record EarningsEvent =
  symbol :: string
  company :: string
  date :: date
  eps_estimate :: "string option"
  eps_actual :: "string option"
  time :: "string option"

text \<open>A row of the Nasdaq calendar: a JSON object whose values are strings or null.\<close>

type_synonym row = "(string \<times> string option) list"

text \<open>\<open>row.get(k)\<close>: \<open>None\<close> for a missing key and for a null value alike.\<close>

definition row_get :: "row \<Rightarrow> string \<Rightarrow> string option" where
  "row_get r k = (case map_of r k of None \<Rightarrow> None | Some v \<Rightarrow> v)"

text \<open>
  \<open>row.get(k, "").strip()\<close>: the default covers a missing key; a null value has no
  \<open>strip\<close> and raises AttributeError.
\<close>

definition row_get_strip :: "row \<Rightarrow> string \<Rightarrow> exn + string" where
  "row_get_strip r k =
     (case map_of r k of
        None \<Rightarrow> Inr (strip [])
      | Some None \<Rightarrow> Inl (Exn AttributeError ''NoneType object has no attribute strip'')
      | Some (Some s) \<Rightarrow> Inr (strip s))"

text \<open>\<open>a or b\<close> on optional strings: \<open>a\<close> when it is a non-empty string, \<open>b\<close> otherwise.\<close>

definition opt_or :: "string option \<Rightarrow> string option \<Rightarrow> string option" where
  "opt_or a b = (if or_empty a \<noteq> [] then a else b)"

definition from_api :: "row \<Rightarrow> date \<Rightarrow> exn + EarningsEvent" where
  "from_api r on_date =
     (case row_get_strip r ''symbol'' of
        Inl e \<Rightarrow> Inl e
      | Inr symbol_v \<Rightarrow>
          (case row_get_strip r ''companyName'' of
             Inl e \<Rightarrow> Inl e
           | Inr company_v \<Rightarrow>
               Inr \<lparr>symbol = symbol_v, company = company_v, date = on_date,
                    eps_estimate = row_get r ''epsForecast'',
                    eps_actual = row_get r ''epsActual'',
                    time = opt_or (row_get r ''time'') (row_get r ''timeZone'')\<rparr>))"

text \<open>\<open>[EarningsEvent.from_api(row, on_date) for row in rows]\<close>: the first raise ends it.\<close>

fun from_api_all :: "row list \<Rightarrow> date \<Rightarrow> exn + EarningsEvent list" where
  "from_api_all [] on_date = Inr []"
| "from_api_all (r # rs) on_date =
     (case from_api r on_date of
        Inl e \<Rightarrow> Inl e
      | Inr ev \<Rightarrow> (case from_api_all rs on_date of Inl e \<Rightarrow> Inl e | Inr evs \<Rightarrow> Inr (ev # evs)))"

text \<open>
  The decoded body of the earnings endpoint, by what
  \<open>(data or {}).get("data", {}).get("rows", [])\<close> makes of it: no rows to be found (a falsy
  body, no \<open>data\<close> key, or a \<open>data\<close> object without \<open>rows\<close>), \<open>data\<close> null (whose
  \<open>.get\<close> raises AttributeError), or the value of \<open>rows\<close>, \<open>None\<close> for null.
\<close>

datatype nasdaq_json = NasdaqNoRows | NasdaqDataNull | NasdaqRows "row list option"

definition EARNINGS_BASE_URL :: string where
  "EARNINGS_BASE_URL = ''https://api.nasdaq.com/api/calendar/earnings''"

definition fetch_for_date ::
  "lib \<Rightarrow> nasdaq_json net \<Rightarrow> date \<Rightarrow> request list \<Rightarrow> (exn + EarningsEvent list) \<times> request list" where
  "fetch_for_date L net on_date log =
     (let params = [(''date'', strftime_date L DATE_FORMAT on_date)]
      in case session_get net \<lparr>req_url = EARNINGS_BASE_URL, req_params = params\<rparr> log of
           (Inl e, log') \<Rightarrow> (Inl e, log')
         | (Inr response, log') \<Rightarrow>
             (case raise_for_status response of
                Some msg \<Rightarrow> (Inl (Exn EarningsCalendarError msg), log')
              | None \<Rightarrow>
                  (case json response of
                     None \<Rightarrow> (Inl (Exn ValueError ''JSONDecodeError''), log')
                   | Some NasdaqDataNull \<Rightarrow>
                       (Inl (Exn AttributeError ''NoneType object has no attribute get''), log')
                   | Some NasdaqNoRows \<Rightarrow> (from_api_all [] on_date, log')
                   | Some (NasdaqRows None) \<Rightarrow> (from_api_all [] on_date, log')
                   | Some (NasdaqRows (Some rows)) \<Rightarrow> (from_api_all rows on_date, log'))))"

type_synonym earnings_dict = "(date \<times> EarningsEvent list) list"

text \<open>
  The \<open>while current <= end_date\<close> loop of \<open>fetch_earnings\<close>: one request per day, the
  first raise ending the whole fetch; \<open>current += timedelta(days=1)\<close> itself raises
  OverflowError past \<open>date.max\<close>.
\<close>

function fetch_days ::
  "lib \<Rightarrow> nasdaq_json net \<Rightarrow> date \<Rightarrow> date \<Rightarrow> earnings_dict \<Rightarrow> request list
     \<Rightarrow> (exn + earnings_dict) \<times> request list" where
  "fetch_days L net current end_date events log =
     (if current \<le> end_date then
        (case fetch_for_date L net current log of
           (Inl e, log') \<Rightarrow> (Inl e, log')
         | (Inr day_events, log') \<Rightarrow>
             (case date_add current 1 of
                Inl e \<Rightarrow> (Inl e, log')
              | Inr next_day \<Rightarrow>
                  fetch_days L net next_day end_date (dict_set events current day_events) log'))
      else (Inr events, log))"
  by pat_completeness auto
termination
  by (relation "measure (\<lambda>(L, net, current, end_date, events, log). nat (end_date - current + 1))")
     (auto simp: date_add_def Let_def split: if_splits)

declare fetch_days.simps [simp del]

text \<open>
  \<open>fetch_earnings\<close> on \<open>date\<close> arguments (the pipeline passes dates; the string form that
  \<open>_coerce_date\<close> also accepts is outside the embedding).
\<close>

definition coerce_date :: "lib \<Rightarrow> date option \<Rightarrow> date" where
  "coerce_date L v = (case v of None \<Rightarrow> today L | Some d \<Rightarrow> d)"

definition fetch_earnings ::
  "lib \<Rightarrow> nasdaq_json net \<Rightarrow> date option \<Rightarrow> date option \<Rightarrow> request list
     \<Rightarrow> (exn + earnings_dict) \<times> request list" where
  "fetch_earnings L net start end_arg log =
     (let start_date = coerce_date L start;
          end_date = (case end_arg of None \<Rightarrow> start_date | Some d \<Rightarrow> coerce_date L (Some d))
      in if end_date < start_date
         then (Inl (Exn ValueError ''end date must be after start date''), log)
         else fetch_days L net start_date end_date [] log)"

definition earnings_table_header :: string where
  "earnings_table_header =
     ''| Symbol | Company | Time | EPS Estimate | EPS Actual |'' @ nl @ ''|---|---|---|---|---|''"

definition earnings_row :: "EarningsEvent \<Rightarrow> string" where
  "earnings_row ev =
     ''| '' @ symbol ev @ '' | '' @ company ev @ '' | '' @ or_empty (time ev) @ '' | '' @
     or_empty (eps_estimate ev) @ '' | '' @ or_empty (eps_actual ev) @ '' |''"

text \<open>\<open>for event in day_events: lines.append(...)\<close>.\<close>

fun earnings_day_rows :: "EarningsEvent list \<Rightarrow> string list \<Rightarrow> string list" where
  "earnings_day_rows [] lines = lines"
| "earnings_day_rows (ev # evs) lines = earnings_day_rows evs (lines @ [earnings_row ev])"

text \<open>
  \<open>for event_date in sorted(events)\<close>, over the sorted keys, with \<open>lines\<close> the lines
  appended so far; \<open>events[event_date]\<close> is the lookup in the dictionary being iterated,
  whose keys the loop runs over, so it does not raise KeyError.
\<close>

fun earnings_lines ::
  "lib \<Rightarrow> earnings_dict \<Rightarrow> date list \<Rightarrow> string list \<Rightarrow> string list" where
  "earnings_lines L events [] lines = lines"
| "earnings_lines L events (event_date # ds) lines =
     (let lines = lines @ [''### '' @ strftime_date L ''%A, %B %d, %Y'' event_date];
          day_events = (case map_of events event_date of None \<Rightarrow> [] | Some evs \<Rightarrow> evs)
      in if day_events = []
         then earnings_lines L events ds (lines @ [''No scheduled earnings releases.'' @ nl])
         else earnings_lines L events ds
                (earnings_day_rows day_events (lines @ [earnings_table_header]) @ [[]]))"

definition earnings_to_markdown :: "lib \<Rightarrow> earnings_dict \<Rightarrow> string" where
  "earnings_to_markdown L events =
     (if events = [] then ''No earnings events found.'' @ nl
      else strip (join nl (earnings_lines L events (sort (map fst events)) [])) @ nl)"

section \<open>TwitterScraper.py\<close>

record Tweet =
  tweet_id :: string
  author_id :: string
  tweet_text :: string
  created_at :: "string option"
  tweet_url :: string

text \<open>An object of the Twitter API: a JSON object with string values.\<close>

type_synonym tw_object = "(string \<times> string) list"

definition tw_get_default :: "tw_object \<Rightarrow> string \<Rightarrow> string \<Rightarrow> string" where
  "tw_get_default d k dflt = (case map_of d k of None \<Rightarrow> dflt | Some v \<Rightarrow> v)"

definition tweet_from_api :: "tw_object \<Rightarrow> Tweet" where
  "tweet_from_api payload =
     (let tid = tw_get_default payload ''id'' [];
          aid = tw_get_default payload ''author_id'' []
      in \<lparr>tweet_id = tid, author_id = aid,
          tweet_text = tw_get_default payload ''text'' [],
          created_at = map_of payload ''created_at'',
          tweet_url = (if tid \<noteq> [] then ''https://twitter.com/'' @ aid @ ''/status/'' @ tid
                       else [])\<rparr>)"

definition default_bearer_token :: "lib \<Rightarrow> string option \<Rightarrow> exn + string" where
  "default_bearer_token L provided =
     (let token = opt_or provided (getenv L ''TWITTER_BEARER_TOKEN'')
      in if or_empty token = []
         then Inl (Exn RuntimeError
                    (''A Twitter API bearer token is required. Supply it via the '' @
                     [CHR 0x27] @ ''bearer_token'' @ [CHR 0x27] @
                     '' argument or set the TWITTER_BEARER_TOKEN environment variable.''))
         else Inr (or_empty token))"

text \<open>
  The decoded body of a Twitter response: the value of \<open>errors\<close> when the key is there, and
  the objects under \<open>data\<close>, none when that key is missing.
\<close>

datatype twitter_json = TwitterBody (tw_errors: "string option") (tw_data: "tw_object list")

definition USER_LOOKUP_URL :: string where
  "USER_LOOKUP_URL = ''https://api.twitter.com/2/users/by''"

definition user_timeline_url :: "string \<Rightarrow> string" where
  "user_timeline_url user_id = ''https://api.twitter.com/2/users/'' @ user_id @ ''/tweets''"

text \<open>\<open>str.lower()\<close> on the code points below U+0100.\<close>

definition lower_char :: "char \<Rightarrow> char" where
  "lower_char c =
     (let n = (of_char c :: int)
      in if (65 \<le> n \<and> n \<le> 90) \<or> (192 \<le> n \<and> n \<le> 222 \<and> n \<noteq> 215) then char_of (n + 32)
         else c)"

definition lower :: "string \<Rightarrow> string" where
  "lower s = map lower_char s"

text \<open>
  The dictionary comprehension of \<open>_lookup_user_ids\<close>: \<open>entry["username"]\<close> and
  \<open>entry["id"]\<close> raise KeyError on an entry without the key.
\<close>

fun user_id_mapping :: "tw_object list \<Rightarrow> (string \<times> string) list \<Rightarrow> exn + (string \<times> string) list" where
  "user_id_mapping [] acc = Inr acc"
| "user_id_mapping (entry # entries) acc =
     (case map_of entry ''username'' of
        None \<Rightarrow> Inl (Exn KeyError ([CHR 0x27] @ ''username'' @ [CHR 0x27]))
      | Some username \<Rightarrow>
          (case map_of entry ''id'' of
             None \<Rightarrow> Inl (Exn KeyError ([CHR 0x27] @ ''id'' @ [CHR 0x27]))
           | Some uid \<Rightarrow> user_id_mapping entries (dict_set acc (lower username) uid)))"

definition lookup_user_ids ::
  "twitter_json net \<Rightarrow> string list \<Rightarrow> request list
     \<Rightarrow> (exn + (string \<times> string) list) \<times> request list" where
  "lookup_user_ids net handles log =
     (let usernames = join '','' (map (lstrip_chars ''@'') handles)
      in if usernames = [] then (Inr [], log)
         else
           (case session_get net
                   \<lparr>req_url = USER_LOOKUP_URL,
                    req_params = [(''usernames'', usernames), (''user.fields'', ''username'')]\<rparr> log of
              (Inl e, log') \<Rightarrow> (Inl e, log')
            | (Inr response, log') \<Rightarrow>
                (case json response of
                   None \<Rightarrow> (Inl (Exn ValueError ''JSONDecodeError''), log')
                 | Some body \<Rightarrow>
                     (case tw_errors body of
                        Some errs \<Rightarrow> (Inl (Exn TwitterScraperError errs), log')
                      | None \<Rightarrow> (user_id_mapping (tw_data body) [], log')))))"

type_synonym tweets_dict = "(string \<times> Tweet list) list"

definition timeline_params :: "int \<Rightarrow> string option \<Rightarrow> string option \<Rightarrow> (string \<times> string) list" where
  "timeline_params max_results start_time end_time =
     (let params = [(''max_results'', show_int (max 5 (min max_results 100))),
                    (''tweet.fields'', ''created_at,author_id'')];
          params = (if or_empty start_time \<noteq> []
                    then dict_set params ''start_time'' (or_empty start_time) else params);
          params = (if or_empty end_time \<noteq> []
                    then dict_set params ''end_time'' (or_empty end_time) else params)
      in params)"

text \<open>
  The \<open>for handle in handles\<close> loop of \<open>fetch_recent_tweets\<close>; \<open>continue\<close> for a handle
  without a user id.
\<close>

fun fetch_timelines ::
  "twitter_json net \<Rightarrow> (string \<times> string) list \<Rightarrow> int \<Rightarrow> string option \<Rightarrow> string option
     \<Rightarrow> string list \<Rightarrow> tweets_dict \<Rightarrow> request list \<Rightarrow> (exn + tweets_dict) \<times> request list" where
  "fetch_timelines net id_mapping max_results start_time end_time [] tweets log =
     (Inr tweets, log)"
| "fetch_timelines net id_mapping max_results start_time end_time (handle # handles) tweets log =
     (let username = lstrip_chars ''@'' handle;
          user_id = map_of id_mapping (lower username)
      in if or_empty user_id = []
         then fetch_timelines net id_mapping max_results start_time end_time handles tweets log
         else
           (case session_get net
                   \<lparr>req_url = user_timeline_url (or_empty user_id),
                    req_params = timeline_params max_results start_time end_time\<rparr> log of
              (Inl e, log') \<Rightarrow> (Inl e, log')
            | (Inr response, log') \<Rightarrow>
                (case json response of
                   None \<Rightarrow> (Inl (Exn ValueError ''JSONDecodeError''), log')
                 | Some body \<Rightarrow>
                     (case tw_errors body of
                        Some errs \<Rightarrow> (Inl (Exn TwitterScraperError errs), log')
                      | None \<Rightarrow>
                          fetch_timelines net id_mapping max_results start_time end_time handles
                            (dict_set tweets handle (map tweet_from_api (tw_data body))) log'))))"

text \<open>\<open>{handle: [] for handle in handles}\<close>.\<close>

fun empty_timelines :: "string list \<Rightarrow> tweets_dict \<Rightarrow> tweets_dict" where
  "empty_timelines [] acc = acc"
| "empty_timelines (handle # handles) acc = empty_timelines handles (dict_set acc handle [])"

definition fetch_recent_tweets ::
  "lib \<Rightarrow> twitter_json net \<Rightarrow> string list \<Rightarrow> string option \<Rightarrow> int
     \<Rightarrow> string option \<Rightarrow> string option \<Rightarrow> request list
     \<Rightarrow> (exn + tweets_dict) \<times> request list" where
  "fetch_recent_tweets L net handles bearer_token max_results start_time end_time log =
     (case default_bearer_token L bearer_token of
        Inl e \<Rightarrow> (Inl e, log)
      | Inr token \<Rightarrow>
          (case lookup_user_ids net handles log of
             (Inl e, log') \<Rightarrow> (Inl e, log')
           | (Inr id_mapping, log') \<Rightarrow>
               fetch_timelines net id_mapping max_results start_time end_time handles
                 (empty_timelines handles []) log'))"

definition tweet_line :: "Tweet \<Rightarrow> string" where
  "tweet_line tweet =
     (let timestamp = or_empty (created_at tweet)
      in ''- ['' @ timestamp @ '']('' @ tweet_url tweet @ '') '' @ strip (tweet_text tweet))"

fun tweet_item_lines :: "Tweet list \<Rightarrow> string list \<Rightarrow> string list" where
  "tweet_item_lines [] lines = lines"
| "tweet_item_lines (tweet # items) lines = tweet_item_lines items (lines @ [tweet_line tweet])"

text \<open>\<open>for handle, items in tweets.items()\<close>, in the insertion order of the dictionary.\<close>

fun tweets_lines :: "tweets_dict \<Rightarrow> string list \<Rightarrow> string list" where
  "tweets_lines [] lines = lines"
| "tweets_lines ((handle, items) # rest) lines =
     (let lines = lines @ [''### @'' @ lstrip_chars ''@'' handle]
      in if items = []
         then tweets_lines rest (lines @ [''No recent tweets found.'' @ nl])
         else tweets_lines rest (tweet_item_lines items lines @ [[]]))"

definition tweets_to_markdown :: "tweets_dict \<Rightarrow> string" where
  "tweets_to_markdown tweets =
     (if tweets = [] then ''No tweets collected.'' @ nl
      else strip (join nl (tweets_lines tweets [])) @ nl)"

section \<open>RedditScraper.py\<close>

text \<open>
  A POSIX timestamp is a whole number of seconds: the fraction of Reddit's float plays no
  part below the minute that is printed. \<open>datetime.utcfromtimestamp\<close> raises OverflowError
  outside the platform's \<open>time_t\<close> and ValueError outside the years 1..9999.
\<close>

definition utcfromtimestamp :: "lib \<Rightarrow> int \<Rightarrow> exn + datetime" where
  "utcfromtimestamp L t =
     (if t < - (2 ^ 63) \<or> 2 ^ 63 \<le> t
      then Inl (Exn OverflowError ''timestamp out of range for platform time_t'')
      else if t < - 62135596800 \<or> 253402300799 < t
      then Inl (Exn ValueError ''year is out of range'')
      else Inr (gmtime L t))"

definition parse_timestamp :: "lib \<Rightarrow> int option \<Rightarrow> exn + string" where
  "parse_timestamp L timestamp =
     (case timestamp of
        None \<Rightarrow> Inr []
      | Some t \<Rightarrow>
          if t = 0 then Inr []
          else (case utcfromtimestamp L t of
                  Inl e \<Rightarrow> Inl e
                | Inr d \<Rightarrow> Inr (strftime_datetime L ''%Y-%m-%d %H:%M UTC'' d)))"

record RedditPost =
  post_id :: string
  title :: string
  author :: string
  permalink :: pyval
  created_utc :: "int option"
  post_url :: string

definition post_created_at :: "lib \<Rightarrow> RedditPost \<Rightarrow> exn + string" where
  "post_created_at L post = parse_timestamp L (created_utc post)"

definition REDDIT_BASE_URL :: string where
  "REDDIT_BASE_URL = ''https://www.reddit.com''"

text \<open>\<open>float(v)\<close>: TypeError for \<open>None\<close> and for a datetime, ValueError for a bad string.\<close>

fun py_float :: "lib \<Rightarrow> pyval \<Rightarrow> exn + int" where
  "py_float L PNone = Inl (Exn TypeError ''float() argument must be a string or a real number'')"
| "py_float L (PBool b) = Inr (if b then 1 else 0)"
| "py_float L (PInt i) = Inr i"
| "py_float L (PStr s) = float_of_str L s"
| "py_float L (PDatetime d) =
     Inl (Exn TypeError ''float() argument must be a string or a real number'')"

text \<open>
  \<open>RedditPost.from_listing\<close>; \<open>info\<close> is the object under the child's \<open>data\<close> key, empty
  when the child is not a dictionary or has no such key.
\<close>

definition from_listing :: "lib \<Rightarrow> payload option \<Rightarrow> exn + RedditPost" where
  "from_listing L child =
     (let info = (case child of None \<Rightarrow> [] | Some d \<Rightarrow> d);
          permalink_v = dict_get_default info ''permalink'' (PStr [])
      in case py_float L (py_or (dict_get_default info ''created_utc'' (PInt 0)) (PInt 0)) of
           Inl e \<Rightarrow> Inl e
         | Inr created \<Rightarrow>
             Inr \<lparr>post_id = py_str L (dict_get_default info ''id'' (PStr [])),
                  title = py_str L (dict_get_default info ''title'' (PStr [])),
                  author = py_str L (dict_get_default info ''author'' (PStr [])),
                  permalink = permalink_v,
                  created_utc = Some created,
                  post_url = (if truthy permalink_v then REDDIT_BASE_URL @ py_str L permalink_v
                              else py_str L (dict_get_default info ''url'' (PStr [])))\<rparr>)"

fun from_listing_all :: "lib \<Rightarrow> payload option list \<Rightarrow> exn + RedditPost list" where
  "from_listing_all L [] = Inr []"
| "from_listing_all L (c # cs) =
     (case from_listing L c of
        Inl e \<Rightarrow> Inl e
      | Inr post \<Rightarrow>
          (case from_listing_all L cs of Inl e \<Rightarrow> Inl e | Inr posts \<Rightarrow> Inr (post # posts)))"

text \<open>The decoded body of a listing: the children under \<open>data.children\<close>, none if missing.\<close>

datatype reddit_json = RedditListing (children: "payload option list")

definition fetch_listing ::
  "lib \<Rightarrow> reddit_json net \<Rightarrow> string \<Rightarrow> int \<Rightarrow> request list
     \<Rightarrow> (exn + RedditPost list) \<times> request list" where
  "fetch_listing L net path limit log =
     (case session_get net
             \<lparr>req_url = REDDIT_BASE_URL @ path, req_params = [(''limit'', show_int limit)]\<rparr> log of
        (Inl e, log') \<Rightarrow> (Inl e, log')
      | (Inr response, log') \<Rightarrow>
          if status_code response \<ge> 400
          then (Inl (Exn RedditScraperError
                       (''Error fetching '' @ path @ '': '' @ show_int (status_code response))),
                log')
          else (case json response of
                  None \<Rightarrow> (Inl (Exn ValueError ''JSONDecodeError''), log')
                | Some body \<Rightarrow> (from_listing_all L (children body), log')))"

type_synonym reddit_dict = "(string \<times> RedditPost list) list"

text \<open>
  The two loops of \<open>fetch_reddit_updates\<close> are one loop over the keys and paths they
  build, the subreddits first.
\<close>

fun fetch_listings ::
  "lib \<Rightarrow> reddit_json net \<Rightarrow> int \<Rightarrow> (string \<times> string) list \<Rightarrow> reddit_dict \<Rightarrow> request list
     \<Rightarrow> (exn + reddit_dict) \<times> request list" where
  "fetch_listings L net limit [] results log = (Inr results, log)"
| "fetch_listings L net limit ((key, path) # rest) results log =
     (case fetch_listing L net path limit log of
        (Inl e, log') \<Rightarrow> (Inl e, log')
      | (Inr posts, log') \<Rightarrow> fetch_listings L net limit rest (dict_set results key posts) log')"

definition subreddit_target :: "string \<Rightarrow> string \<times> string" where
  "subreddit_target subreddit =
     (let name = strip (lstrip_chars ''r/'' subreddit)
      in (''r/'' @ name, ''/r/'' @ name @ ''/new.json''))"

definition user_target :: "string \<Rightarrow> string \<times> string" where
  "user_target user =
     (let username = strip (lstrip_chars ''u/'' user)
      in (''u/'' @ username, ''/user/'' @ username @ ''/submitted.json''))"

definition fetch_reddit_updates ::
  "lib \<Rightarrow> reddit_json net \<Rightarrow> string list \<Rightarrow> string list \<Rightarrow> int \<Rightarrow> request list
     \<Rightarrow> (exn + reddit_dict) \<times> request list" where
  "fetch_reddit_updates L net subreddits users limit log =
     fetch_listings L net limit (map subreddit_target subreddits @ map user_target users) [] log"

definition reddit_line :: "lib \<Rightarrow> RedditPost \<Rightarrow> exn + string" where
  "reddit_line L post =
     (case post_created_at L post of
        Inl e \<Rightarrow> Inl e
      | Inr stamp \<Rightarrow>
          Inr (''- ['' @ stamp @ '']('' @ post_url post @ '') '' @ title post @
               '' by u/'' @ author post))"

fun reddit_entry_lines :: "lib \<Rightarrow> RedditPost list \<Rightarrow> string list \<Rightarrow> exn + string list" where
  "reddit_entry_lines L [] lines = Inr lines"
| "reddit_entry_lines L (post # entries) lines =
     (case reddit_line L post of
        Inl e \<Rightarrow> Inl e
      | Inr l \<Rightarrow> reddit_entry_lines L entries (lines @ [l]))"

text \<open>\<open>for source, entries in posts.items()\<close>; a raise of \<open>post.created_at\<close> ends it.\<close>

fun reddit_lines :: "lib \<Rightarrow> reddit_dict \<Rightarrow> string list \<Rightarrow> exn + string list" where
  "reddit_lines L [] lines = Inr lines"
| "reddit_lines L ((source, entries) # rest) lines =
     (let lines = lines @ [''### '' @ source]
      in if entries = []
         then reddit_lines L rest (lines @ [''No new posts.'' @ nl])
         else (case reddit_entry_lines L entries lines of
                 Inl e \<Rightarrow> Inl e
               | Inr lines \<Rightarrow> reddit_lines L rest (lines @ [[]])))"

definition reddit_to_markdown :: "lib \<Rightarrow> reddit_dict \<Rightarrow> exn + string" where
  "reddit_to_markdown L posts =
     (if posts = [] then Inr (''No Reddit activity found.'' @ nl)
      else (case reddit_lines L posts [] of
              Inl e \<Rightarrow> Inl e
            | Inr lines \<Rightarrow> Inr (strip (join nl lines) @ nl)))"

section \<open>ReportGenerator.py\<close>

definition collect_economic_data ::
  "lib \<Rightarrow> econ_json net \<Rightarrow> date \<Rightarrow> int \<Rightarrow> request list
     \<Rightarrow> (exn + EconomicEvent list) \<times> request list" where
  "collect_economic_data L net start_arg lookahead_arg log =
     (case daterange start_arg lookahead_arg of
        Inl e \<Rightarrow> (Inl e, log)
      | Inr (start_date, end_date) \<Rightarrow>
          fetch_economic_calendar L net (Some start_date) (Some end_date)
            None None None None None log)"

definition collect_earnings_data ::
  "lib \<Rightarrow> nasdaq_json net \<Rightarrow> date \<Rightarrow> int \<Rightarrow> request list
     \<Rightarrow> (exn + earnings_dict) \<times> request list" where
  "collect_earnings_data L net start_arg lookahead_arg log =
     (case daterange start_arg lookahead_arg of
        Inl e \<Rightarrow> (Inl e, log)
      | Inr (start_date, end_date) \<Rightarrow> fetch_earnings L net (Some start_date) (Some end_date) log)"

definition collect_twitter_data ::
  "lib \<Rightarrow> twitter_json net \<Rightarrow> string list \<Rightarrow> request list
     \<Rightarrow> (exn + tweets_dict) \<times> request list" where
  "collect_twitter_data L net handles log =
     (let handles = map strip (filter (\<lambda>handle. handle \<noteq> [] \<and> strip handle \<noteq> []) handles)
      in if handles = [] then (Inr [], log)
         else fetch_recent_tweets L net handles None 10 None None log)"

definition collect_reddit_data ::
  "lib \<Rightarrow> reddit_json net \<Rightarrow> string list \<Rightarrow> string list \<Rightarrow> int \<Rightarrow> request list
     \<Rightarrow> (exn + reddit_dict) \<times> request list" where
  "collect_reddit_data L net subreddits users limit log =
     fetch_reddit_updates L net subreddits users limit log"

definition economic_title :: string where
  "economic_title = ''## Economic Calendar''"

definition earnings_title :: string where
  "earnings_title = ''## Earnings Calendar''"

definition twitter_title :: string where
  "twitter_title = ''## Twitter Highlights''"

definition reddit_title :: string where
  "reddit_title = ''## Reddit Highlights''"

definition report_head :: "lib \<Rightarrow> datetime \<Rightarrow> string list" where
  "report_head L generated_at =
     [''# Market Intelligence Report'',
      ''_Generated on '' @ strftime_datetime L ''%Y-%m-%d %H:%M %Z'' generated_at @ ''_'',
      []]"

text \<open>
  The list \<open>lines\<close> of \<open>build_markdown_report\<close> as it stands before the final join. Only
  the Reddit renderer can raise, through \<open>post.created_at\<close>.
\<close>

definition report_lines ::
  "lib \<Rightarrow> datetime \<Rightarrow> EconomicEvent list option \<Rightarrow> earnings_dict option
     \<Rightarrow> tweets_dict option \<Rightarrow> reddit_dict option \<Rightarrow> exn + string list" where
  "report_lines L generated_at economic_events earnings_events twitter_posts reddit_posts =
     (let lines = report_head L generated_at;
          lines = (case economic_events of
                     None \<Rightarrow> lines
                   | Some evs \<Rightarrow> lines @ [economic_title] @ [events_to_markdown L evs]);
          lines = (case earnings_events of
                     None \<Rightarrow> lines
                   | Some evs \<Rightarrow> lines @ [earnings_title] @ [earnings_to_markdown L evs]);
          lines = (case twitter_posts of
                     None \<Rightarrow> lines
                   | Some tws \<Rightarrow> lines @ [twitter_title] @ [tweets_to_markdown tws])
      in case reddit_posts of
           None \<Rightarrow> Inr lines
         | Some posts \<Rightarrow>
             (case reddit_to_markdown L posts of
                Inl e \<Rightarrow> Inl e
              | Inr fragment \<Rightarrow> Inr (lines @ [reddit_title] @ [fragment])))"

definition build_markdown_report ::
  "lib \<Rightarrow> datetime \<Rightarrow> EconomicEvent list option \<Rightarrow> earnings_dict option
     \<Rightarrow> tweets_dict option \<Rightarrow> reddit_dict option \<Rightarrow> exn + string" where
  "build_markdown_report L generated_at economic_events earnings_events twitter_posts reddit_posts =
     (case report_lines L generated_at economic_events earnings_events twitter_posts reddit_posts of
        Inl e \<Rightarrow> Inl e
      | Inr lines \<Rightarrow> Inr (strip (join nl lines) @ nl))"

text \<open>\<open>value.split(",")\<close>.\<close>

fun split_on :: "char \<Rightarrow> string \<Rightarrow> string list" where
  "split_on sep [] = [[]]"
| "split_on sep (c # cs) =
     (if c = sep then [] # split_on sep cs
      else (case split_on sep cs of
              [] \<Rightarrow> [[c]]
            | w # ws \<Rightarrow> (c # w) # ws))"

definition parse_handles :: "string option \<Rightarrow> string list" where
  "parse_handles v =
     (if or_empty v = [] then []
      else map strip (filter (\<lambda>item. strip item \<noteq> []) (split_on CHR '','' (or_empty v))))"

record args =
  output_path :: string
  start :: date
  lookahead :: int
  twitter :: "string option"
  reddit_subreddits :: "string option"
  reddit_users :: "string option"
  reddit_limit :: int
  skip_economic :: bool
  skip_earnings :: bool
  skip_twitter :: bool
  skip_reddit :: bool

text \<open>
  The four collectors as \<open>main\<close> calls them, each acting on a world \<open>'w\<close> (for the real
  collectors, the log of outbound requests). \<open>main\<close> looks them up by name when it runs, so
  a test can put a failing collector in the place of any of them.
\<close>

record 'w collectors =
  economic_collector :: "date \<Rightarrow> int \<Rightarrow> 'w \<Rightarrow> (exn + EconomicEvent list) \<times> 'w"
  earnings_collector :: "date \<Rightarrow> int \<Rightarrow> 'w \<Rightarrow> (exn + earnings_dict) \<times> 'w"
  twitter_collector :: "string list \<Rightarrow> 'w \<Rightarrow> (exn + tweets_dict) \<times> 'w"
  reddit_collector :: "string list \<Rightarrow> string list \<Rightarrow> int \<Rightarrow> 'w \<Rightarrow> (exn + reddit_dict) \<times> 'w"

text \<open>What a run leaves behind: the diagnostic stream, standard output, the files written.\<close>

record io =
  stderr :: "string list"
  stdout :: "string list"
  files :: "(string \<times> string) list"

text \<open>
  One \<open>try: if <enabled>: x = collect(...) except Exception as exc: x = <empty>; print(...)\<close>
  block of \<open>main\<close>: the variable keeps \<open>None\<close> when the source is not enabled, takes the
  result of the collector, or takes the empty value when the collector raises, with one
  line on the diagnostic stream.
\<close>

definition try_collect ::
  "bool \<Rightarrow> ('w \<Rightarrow> (exn + 'a) \<times> 'w) \<Rightarrow> 'a \<Rightarrow> string \<Rightarrow> 'w \<Rightarrow> 'a option \<times> string list \<times> 'w" where
  "try_collect enabled collect empty_value label w =
     (if enabled then
        (case collect w of
           (Inr result, w') \<Rightarrow> (Some result, [], w')
         | (Inl exc, w') \<Rightarrow>
             (Some empty_value, [''Failed to fetch '' @ label @ '' data: '' @ message exc], w'))
      else (None, [], w))"

definition economic_enabled :: "args \<Rightarrow> bool" where
  "economic_enabled a \<longleftrightarrow> \<not> skip_economic a"

definition earnings_enabled :: "args \<Rightarrow> bool" where
  "earnings_enabled a \<longleftrightarrow> \<not> skip_earnings a"

definition twitter_enabled :: "args \<Rightarrow> bool" where
  "twitter_enabled a \<longleftrightarrow> \<not> skip_twitter a \<and> parse_handles (twitter a) \<noteq> []"

definition reddit_enabled :: "args \<Rightarrow> bool" where
  "reddit_enabled a \<longleftrightarrow>
     \<not> skip_reddit a \<and>
     (parse_handles (reddit_subreddits a) \<noteq> [] \<or> parse_handles (reddit_users a) \<noteq> [])"

text \<open>
  \<open>main\<close> after \<open>parse_arguments\<close>, with \<open>now\<close> the reading of the clock. It returns the
  exit status, or the exception that escapes it, with the output_path and the final world.
  Writing the file is taken to succeed.
\<close>

definition main_with ::
  "'w collectors \<Rightarrow> lib \<Rightarrow> datetime \<Rightarrow> args \<Rightarrow> 'w \<Rightarrow> (exn + int) \<times> io \<times> 'w" where
  "main_with C L now a w0 =
     (let (economic_events, err1, w1) =
            try_collect (economic_enabled a)
              (economic_collector C (start a) (lookahead a)) [] ''economic'' w0;
          (earnings_events, err2, w2) =
            try_collect (earnings_enabled a)
              (earnings_collector C (start a) (lookahead a)) [] ''earnings'' w1;
          twitter_handles = parse_handles (twitter a);
          (twitter_posts, err3, w3) =
            try_collect (twitter_enabled a)
              (twitter_collector C twitter_handles) [] ''twitter'' w2;
          reddit_subs = parse_handles (reddit_subreddits a);
          reddit_usrs = parse_handles (reddit_users a);
          (reddit_posts, err4, w4) =
            try_collect (reddit_enabled a)
              (reddit_collector C reddit_subs reddit_usrs (reddit_limit a)) [] ''reddit'' w3;
          errs = err1 @ err2 @ err3 @ err4
      in case build_markdown_report L now economic_events earnings_events twitter_posts
                reddit_posts of
           Inl e \<Rightarrow> (Inl e, \<lparr>stderr = errs, stdout = [], files = []\<rparr>, w4)
         | Inr report \<Rightarrow>
             (Inr 0,
              \<lparr>stderr = errs,
               stdout = [''Report written to '' @ output_path a],
               files = [(output_path a, report)]\<rparr>,
              w4))"

text \<open>The providers of the real collectors.\<close>

record network =
  econ_net :: "econ_json net"
  nasdaq_net :: "nasdaq_json net"
  twitter_net :: "twitter_json net"
  reddit_net :: "reddit_json net"

definition real_collectors :: "lib \<Rightarrow> network \<Rightarrow> (request list) collectors" where
  "real_collectors L N =
     \<lparr>economic_collector = collect_economic_data L (econ_net N),
      earnings_collector = collect_earnings_data L (nasdaq_net N),
      twitter_collector = collect_twitter_data L (twitter_net N),
      reddit_collector = collect_reddit_data L (reddit_net N)\<rparr>"

definition main :: "lib \<Rightarrow> network \<Rightarrow> datetime \<Rightarrow> args \<Rightarrow> (exn + int) \<times> io \<times> request list" where
  "main L N now a = main_with (real_collectors L N) L now a []"

section \<open>The fragments as the specification describes them\<close>

text \<open>
  The rendering rules of the specification, written without the loops of the code: a
  fragment is the concatenation of one block per key, and a block lists one row per record
  in the order of the records. The theorems below compare the renderers with them.
\<close>

definition earnings_day_block :: "lib \<Rightarrow> earnings_dict \<Rightarrow> date \<Rightarrow> string list" where
  "earnings_day_block L events d =
     (let day_events = (case map_of events d of None \<Rightarrow> [] | Some evs \<Rightarrow> evs)
      in (''### '' @ strftime_date L ''%A, %B %d, %Y'' d) #
         (if day_events = [] then [''No scheduled earnings releases.'' @ nl]
          else earnings_table_header # map earnings_row day_events @ [[]]))"

definition tweet_block :: "string \<times> Tweet list \<Rightarrow> string list" where
  "tweet_block entry =
     (''### @'' @ lstrip_chars ''@'' (fst entry)) #
     (if snd entry = [] then [''No recent tweets found.'' @ nl]
      else map tweet_line (snd entry) @ [[]])"

text \<open>
  A Reddit row: the printed time of the post, empty for an absent timestamp and for
  timestamp 0, then the link, the title and the author. \<open>timestamp_ok\<close> says that the
  timestamp of a post, if there is one, lies within the years 1..9999, and \<open>posts_ok\<close>
  says so of every post of a dictionary.
\<close>

definition created_text :: "lib \<Rightarrow> RedditPost \<Rightarrow> string" where
  "created_text L post =
     (case created_utc post of
        None \<Rightarrow> []
      | Some t \<Rightarrow> if t = 0 then [] else strftime_datetime L ''%Y-%m-%d %H:%M UTC'' (gmtime L t))"

definition reddit_row :: "lib \<Rightarrow> RedditPost \<Rightarrow> string" where
  "reddit_row L post =
     ''- ['' @ created_text L post @ '']('' @ post_url post @ '') '' @ title post @
     '' by u/'' @ author post"

definition timestamp_ok :: "RedditPost \<Rightarrow> bool" where
  "timestamp_ok post =
     (case created_utc post of
        None \<Rightarrow> True
      | Some t \<Rightarrow> - 62135596800 \<le> t \<and> t \<le> 253402300799)"

definition posts_ok :: "reddit_dict \<Rightarrow> bool" where
  "posts_ok posts = list_all (\<lambda>entry. list_all timestamp_ok (snd entry)) posts"

definition reddit_block :: "lib \<Rightarrow> string \<times> RedditPost list \<Rightarrow> string list" where
  "reddit_block L entry =
     (''### '' @ fst entry) #
     (if snd entry = [] then [''No new posts.'' @ nl]
      else map (reddit_row L) (snd entry) @ [[]])"

text \<open>
  The cells of a row of economic events, as texts: the cell of a field is empty when the
  key is missing, the time cell is empty when \<open>Time\<close> is missing or falsy, and the date
  cell is the first of \<open>DateUtc\<close>, \<open>DateUTC\<close> and \<open>Date\<close> that is truthy, or empty.
\<close>

definition field_cell :: "lib \<Rightarrow> payload \<Rightarrow> string \<Rightarrow> string" where
  "field_cell L data k = (case map_of data k of None \<Rightarrow> [] | Some v \<Rightarrow> py_str L v)"

definition time_cell :: "lib \<Rightarrow> payload \<Rightarrow> string" where
  "time_cell L data =
     (case map_of data ''Time'' of
        None \<Rightarrow> []
      | Some v \<Rightarrow> if truthy v then py_str L v else [])"

definition date_cell :: "lib \<Rightarrow> payload \<Rightarrow> string" where
  "date_cell L data =
     (if truthy (dict_get data ''DateUtc'') then py_str L (dict_get data ''DateUtc'')
      else if truthy (dict_get data ''DateUTC'') then py_str L (dict_get data ''DateUTC'')
      else if truthy (dict_get data ''Date'') then py_str L (dict_get data ''Date'')
      else [])"

text \<open>The Reddit fragment: the fixed sentence, or the blocks joined and stripped.\<close>

definition reddit_fragment :: "lib \<Rightarrow> reddit_dict \<Rightarrow> string" where
  "reddit_fragment L posts =
     (if posts = [] then ''No Reddit activity found.'' @ nl
      else strip (join nl (concat (map (reddit_block L) posts))) @ nl)"

text \<open>A text is trimmed when it neither starts nor ends with whitespace.\<close>

definition trimmed :: "string \<Rightarrow> bool" where
  "trimmed s \<longleftrightarrow> s = [] \<or> (\<not> isspace (hd s) \<and> \<not> isspace (last s))"

text \<open>The raw timestamp that \<open>release_time\<close> reads: \<open>DateUTC\<close>, or else \<open>date\<close>.\<close>

definition release_field :: "EconomicEvent \<Rightarrow> pyval" where
  "release_field ev = py_or (dict_get (as_dict ev) ''DateUTC'') (dict_get (as_dict ev) ''date'')"

fun is_datetime :: "pyval \<Rightarrow> bool" where
  "is_datetime (PDatetime d) = True"
| "is_datetime v = False"

section \<open>The report as the specification describes it\<close>

text \<open>A section is its title line followed by its fragment; an absent section is no line.\<close>

definition section_lines :: "string \<Rightarrow> string option \<Rightarrow> string list" where
  "section_lines heading fragment = (case fragment of None \<Rightarrow> [] | Some f \<Rightarrow> [heading, f])"

definition is_title :: "string \<Rightarrow> bool" where
  "is_title l \<longleftrightarrow> l \<in> set [economic_title, earnings_title, twitter_title, reddit_title]"

text \<open>The titles of the sections that are present, in the fixed order.\<close>

definition present_titles ::
  "'a option \<Rightarrow> 'b option \<Rightarrow> 'c option \<Rightarrow> 'd option \<Rightarrow> string list" where
  "present_titles economic_events earnings_events twitter_posts reddit_posts =
     (if economic_events = None then [] else [economic_title]) @
     (if earnings_events = None then [] else [earnings_title]) @
     (if twitter_posts = None then [] else [twitter_title]) @
     (if reddit_posts = None then [] else [reddit_title])"

text \<open>
  The document: the title line and the timestamp line, then for every fragment that is
  present, in the fixed order, a blank line, the title line of the section and the
  fragment. A fragment that is absent adds no text.
\<close>

definition stamp_line :: "lib \<Rightarrow> datetime \<Rightarrow> string" where
  "stamp_line L generated_at =
     ''_Generated on '' @ strftime_datetime L ''%Y-%m-%d %H:%M %Z'' generated_at @ ''_''"

definition head_text :: "lib \<Rightarrow> datetime \<Rightarrow> string" where
  "head_text L generated_at =
     ''# Market Intelligence Report'' @ nl @ stamp_line L generated_at @ nl"

definition section_text :: "string \<Rightarrow> string option \<Rightarrow> string" where
  "section_text heading fragment =
     (case fragment of None \<Rightarrow> [] | Some f \<Rightarrow> nl @ heading @ nl @ f)"

definition document ::
  "lib \<Rightarrow> datetime \<Rightarrow> string option \<Rightarrow> string option \<Rightarrow> string option \<Rightarrow> string option
     \<Rightarrow> string" where
  "document L generated_at economic earnings tweets reddit =
     head_text L generated_at @
     section_text economic_title economic @
     section_text earnings_title earnings @
     section_text twitter_title tweets @
     section_text reddit_title reddit"

text \<open>
  The \<open>##\<close>-level headers of a text: its lines that start with \<open>## \<close>, in their order. A
  text is headerless when it has none.
\<close>

definition is_header :: "string \<Rightarrow> bool" where
  "is_header l \<longleftrightarrow> take 3 l = ''## ''"

definition section_headers :: "string \<Rightarrow> string list" where
  "section_headers doc = filter is_header (split_on (CHR 0x0A) doc)"

definition headerless :: "string \<Rightarrow> bool" where
  "headerless s \<longleftrightarrow> section_headers s = []"

fun headerless_opt :: "string option \<Rightarrow> bool" where
  "headerless_opt None = True"
| "headerless_opt (Some f) = headerless f"

section \<open>The pipeline as the specification describes it\<close>

text \<open>
  For each enabled source the pipeline invokes the collector and goes on to the next
  source whatever the outcome. \<open>world_after\<close> is the world that an enabled collector
  leaves, \<open>section_input\<close> the records that its section is rendered from (none for a
  collector that failed, no section for a source that is not enabled), and \<open>diagnostic\<close>
  the lines that go to the diagnostic stream.
\<close>

definition world_after :: "bool \<Rightarrow> ('w \<Rightarrow> (exn + 'a) \<times> 'w) \<Rightarrow> 'w \<Rightarrow> 'w" where
  "world_after enabled collect w = (if enabled then snd (collect w) else w)"

definition section_input ::
  "bool \<Rightarrow> ('w \<Rightarrow> (exn + 'a list) \<times> 'w) \<Rightarrow> 'w \<Rightarrow> 'a list option" where
  "section_input enabled collect w =
     (if enabled then Some (case fst (collect w) of Inl exc \<Rightarrow> [] | Inr result \<Rightarrow> result)
      else None)"

definition diagnostic ::
  "bool \<Rightarrow> ('w \<Rightarrow> (exn + 'a) \<times> 'w) \<Rightarrow> string \<Rightarrow> 'w \<Rightarrow> string list" where
  "diagnostic enabled collect label w =
     (if enabled then
        (case fst (collect w) of
           Inl exc \<Rightarrow> [''Failed to fetch '' @ label @ '' data: '' @ message exc]
         | Inr result \<Rightarrow> [])
      else [])"

text \<open>
  The sources in the order of the pipeline, economic, earnings, Twitter and Reddit: the
  world each one leaves and the input of each section, from the first world \<open>w0\<close>.
\<close>

definition economic_world :: "'w collectors \<Rightarrow> args \<Rightarrow> 'w \<Rightarrow> 'w" where
  "economic_world C a w0 =
     world_after (economic_enabled a) (economic_collector C (start a) (lookahead a)) w0"

definition earnings_world :: "'w collectors \<Rightarrow> args \<Rightarrow> 'w \<Rightarrow> 'w" where
  "earnings_world C a w0 =
     world_after (earnings_enabled a) (earnings_collector C (start a) (lookahead a))
       (economic_world C a w0)"

definition twitter_world :: "'w collectors \<Rightarrow> args \<Rightarrow> 'w \<Rightarrow> 'w" where
  "twitter_world C a w0 =
     world_after (twitter_enabled a) (twitter_collector C (parse_handles (twitter a)))
       (earnings_world C a w0)"

definition reddit_call :: "'w collectors \<Rightarrow> args \<Rightarrow> 'w \<Rightarrow> (exn + reddit_dict) \<times> 'w" where
  "reddit_call C a =
     reddit_collector C (parse_handles (reddit_subreddits a)) (parse_handles (reddit_users a))
       (reddit_limit a)"

definition reddit_world :: "'w collectors \<Rightarrow> args \<Rightarrow> 'w \<Rightarrow> 'w" where
  "reddit_world C a w0 = world_after (reddit_enabled a) (reddit_call C a) (twitter_world C a w0)"

definition economic_section :: "'w collectors \<Rightarrow> args \<Rightarrow> 'w \<Rightarrow> EconomicEvent list option" where
  "economic_section C a w0 =
     section_input (economic_enabled a) (economic_collector C (start a) (lookahead a)) w0"

definition earnings_section :: "'w collectors \<Rightarrow> args \<Rightarrow> 'w \<Rightarrow> earnings_dict option" where
  "earnings_section C a w0 =
     section_input (earnings_enabled a) (earnings_collector C (start a) (lookahead a))
       (economic_world C a w0)"

definition twitter_section :: "'w collectors \<Rightarrow> args \<Rightarrow> 'w \<Rightarrow> tweets_dict option" where
  "twitter_section C a w0 =
     section_input (twitter_enabled a) (twitter_collector C (parse_handles (twitter a)))
       (earnings_world C a w0)"

definition reddit_section :: "'w collectors \<Rightarrow> args \<Rightarrow> 'w \<Rightarrow> reddit_dict option" where
  "reddit_section C a w0 =
     section_input (reddit_enabled a) (reddit_call C a) (twitter_world C a w0)"

definition diagnostics :: "'w collectors \<Rightarrow> args \<Rightarrow> 'w \<Rightarrow> string list" where
  "diagnostics C a w0 =
     diagnostic (economic_enabled a) (economic_collector C (start a) (lookahead a))
       ''economic'' w0 @
     diagnostic (earnings_enabled a) (earnings_collector C (start a) (lookahead a))
       ''earnings'' (economic_world C a w0) @
     diagnostic (twitter_enabled a) (twitter_collector C (parse_handles (twitter a)))
       ''twitter'' (earnings_world C a w0) @
     diagnostic (reddit_enabled a) (reddit_call C a) ''reddit'' (twitter_world C a w0)"

section \<open>Worked inputs\<close>

text \<open>
  A library and providers to run the definitions on: dates print as their ordinal, no
  string parses as a timestamp or as a number, and the environment is empty.
\<close>

definition example_lib :: lib where
  "example_lib =
     \<lparr>strftime_date = (\<lambda>fmt d. show_int d),
      strftime_datetime = (\<lambda>fmt d. ''2024-01-01 00:00 UTC''),
      strptime = (\<lambda>s fmt. Inl (Exn ValueError ''time data does not match format'')),
      str_datetime = (\<lambda>d. ''2024-01-01 00:00:00''),
      gmtime = (\<lambda>t. \<lparr>dt_year = 1970, dt_month = 1, dt_day = 1, dt_hour = 0, dt_minute = 0,
                        dt_second = 0, dt_tzname = None\<rparr>),
      float_of_str = (\<lambda>s. Inl (Exn ValueError ''could not convert string to float'')),
      getenv = (\<lambda>name. None),
      today = 738886\<rparr>"

definition example_now :: datetime where
  "example_now =
     \<lparr>dt_year = 2024, dt_month = 1, dt_day = 1, dt_hour = 0, dt_minute = 0, dt_second = 0,
      dt_tzname = Some ''UTC''\<rparr>"

definition offline :: "'j net" where
  "offline log req = Inl (Exn RequestException ''connection refused'')"

definition example_twitter_net :: "twitter_json net" where
  "example_twitter_net log req =
     (if req_url req = USER_LOOKUP_URL
      then Inr (Response 200 (Some (TwitterBody None [[(''username'', ''Alice''), (''id'', ''7'')]])))
      else Inr (Response 200 (Some (TwitterBody None
                  [[(''id'', ''1''), (''author_id'', ''7''), (''text'', '' hello '')]]))))"

definition example_events :: "EconomicEvent list" where
  "example_events =
     [EconomicEvent [(''Date'', PStr ''2024-01-02T13:30:00''), (''Country'', PStr ''United States''),
                     (''Event'', PStr ''CPI''), (''Forecast'', PStr ''3.2%'')],
      EconomicEvent [(''Date'', PStr ''2024-01-01T09:00:00''), (''Country'', PStr ''Germany''),
                     (''Event'', PStr ''GDP'')]]"

definition example_earnings :: earnings_dict where
  "example_earnings =
     [(738887, [\<lparr>symbol = ''XYZ'', company = ''Xyz Corp'', date = 738887,
                 eps_estimate = None, eps_actual = None, time = Some ''time-pre-market''\<rparr>]),
      (738886, [\<lparr>symbol = ''ABC'', company = ''Abc Inc'', date = 738886,
                 eps_estimate = Some ''1.20'', eps_actual = None, time = None\<rparr>,
                \<lparr>symbol = ''AAA'', company = ''Aaa Ltd'', date = 738886,
                 eps_estimate = Some ''0.10'', eps_actual = Some ''0.12'', time = None\<rparr>])]"

definition example_tweets :: tweets_dict where
  "example_tweets =
     [(''@alice'',
       [\<lparr>tweet_id = ''2'', author_id = ''7'', tweet_text = '' second '',
         created_at = Some ''2024-01-01T10:00:00Z'', tweet_url = ''https://twitter.com/7/status/2''\<rparr>,
        \<lparr>tweet_id = ''1'', author_id = ''7'', tweet_text = ''first'', created_at = None,
         tweet_url = ''https://twitter.com/7/status/1''\<rparr>]),
      (''bob'', [])]"

definition example_posts :: reddit_dict where
  "example_posts =
     [(''r/stocks'',
       [\<lparr>post_id = ''b'', title = ''Later post'', author = ''carol'', permalink = PStr ''/r/stocks/b'',
         created_utc = Some 1704103200, post_url = ''https://www.reddit.com/r/stocks/b''\<rparr>,
        \<lparr>post_id = ''a'', title = ''Earlier post'', author = ''dave'', permalink = PStr ''/r/stocks/a'',
         created_utc = None, post_url = ''https://www.reddit.com/r/stocks/a''\<rparr>])]"

definition example_row :: row where
  "example_row =
     [(''symbol'', Some '' ABC ''), (''companyName'', Some ''Abc Inc''),
      (''epsForecast'', Some ''1.20''), (''epsActual'', None)]"

definition untrimmed_null_event :: EconomicEvent where
  "untrimmed_null_event =
     EconomicEvent [(''Date'', PStr ''2024-01-02''), (''Country'', PStr ''  United States ''),
                    (''Event'', PStr ''CPI''), (''Actual'', PNone), (''Forecast'', PStr ''3.2%'')]"

definition example_row_no_eps :: row where
  "example_row_no_eps =
     [(''symbol'', Some '' XYZ ''), (''companyName'', Some ''Xyz Corp ''), (''epsActual'', None)]"

definition example_event_no_eps :: EarningsEvent where
  "example_event_no_eps =
     \<lparr>symbol = ''XYZ'', company = ''Xyz Corp'', date = 738886,
      eps_estimate = None, eps_actual = None, time = None\<rparr>"

definition example_tweet_no_time :: Tweet where
  "example_tweet_no_time =
     \<lparr>tweet_id = ''1'', author_id = ''7'', tweet_text = '' first '', created_at = None,
      tweet_url = ''https://twitter.com/7/status/1''\<rparr>"

definition example_post_no_time :: RedditPost where
  "example_post_no_time =
     \<lparr>post_id = ''a'', title = ''Earlier post'', author = ''dave'', permalink = PStr ''/r/stocks/a'',
      created_utc = None, post_url = ''https://www.reddit.com/r/stocks/a''\<rparr>"

text \<open>A Reddit post whose \<open>created_utc\<close> is in milliseconds.\<close>

definition millisecond_post :: RedditPost where
  "millisecond_post =
     \<lparr>post_id = ''c'', title = ''Post'', author = ''erin'', permalink = PStr ''/r/stocks/c'',
      created_utc = Some 1700000000000, post_url = ''https://www.reddit.com/r/stocks/c''\<rparr>"

definition example_econ_net :: "econ_json net" where
  "example_econ_net log req =
     Inr (Response 200 (Some (EconList
       [[(''Event'', PStr ''CPI''), (''DateUTC'', PStr ''next Tuesday'')],
        [(''Event'', PStr ''GDP''), (''DateUTC'', PStr ''2024-01-02T13:30:00'')]])))"

text \<open>
  Collectors for a test of \<open>main\<close>: each adds its name to the world, a log of the
  collectors invoked. The economic collector of the first set always fails; the one of
  the second set succeeds with no events.
\<close>

definition failing_economic :: "(string list) collectors" where
  "failing_economic =
     \<lparr>economic_collector = (\<lambda>s la w. (Inl (Exn RequestException ''connection refused''),
                                       w @ [''economic''])),
      earnings_collector = (\<lambda>s la w. (Inr example_earnings, w @ [''earnings''])),
      twitter_collector = (\<lambda>handles w. (Inr example_tweets, w @ [''twitter''])),
      reddit_collector = (\<lambda>subs users limit w. (Inr example_posts, w @ [''reddit'']))\<rparr>"

definition empty_economic :: "(string list) collectors" where
  "empty_economic =
     failing_economic\<lparr>economic_collector := (\<lambda>s la w. (Inr [], w @ [''economic'']))\<rparr>"

definition example_args :: args where
  "example_args =
     \<lparr>output_path = ''market_report.md'', start = 738886, lookahead = 1,
      twitter = Some ''@alice, bob'', reddit_subreddits = Some ''stocks'', reddit_users = None,
      reddit_limit = 5, skip_economic = False, skip_earnings = False, skip_twitter = False,
      skip_reddit = False\<rparr>"

text \<open>The report of the test with either set of collectors.\<close>

definition degraded_report :: string where
  "degraded_report =
     ''# Market Intelligence Report'' @ nl @
     ''_Generated on 2024-01-01 00:00 UTC_'' @ nl @
     nl @
     ''## Economic Calendar'' @ nl @
     ''No economic events found.'' @ nl @
     nl @
     ''## Earnings Calendar'' @ nl @
     ''### 738886'' @ nl @
     ''| Symbol | Company | Time | EPS Estimate | EPS Actual |'' @ nl @
     ''|---|---|---|---|---|'' @ nl @
     ''| ABC | Abc Inc |  | 1.20 |  |'' @ nl @
     ''| AAA | Aaa Ltd |  | 0.10 | 0.12 |'' @ nl @
     nl @
     ''### 738887'' @ nl @
     ''| Symbol | Company | Time | EPS Estimate | EPS Actual |'' @ nl @
     ''|---|---|---|---|---|'' @ nl @
     ''| XYZ | Xyz Corp | time-pre-market |  |  |'' @ nl @
     nl @
     ''## Twitter Highlights'' @ nl @
     ''### @alice'' @ nl @
     ''- [2024-01-01T10:00:00Z](https://twitter.com/7/status/2) second'' @ nl @
     ''- [](https://twitter.com/7/status/1) first'' @ nl @
     nl @
     ''### @bob'' @ nl @
     ''No recent tweets found.'' @ nl @
     nl @
     ''## Reddit Highlights'' @ nl @
     ''### r/stocks'' @ nl @
     ''- [2024-01-01 00:00 UTC](https://www.reddit.com/r/stocks/b) Later post by u/carol'' @ nl @
     ''- [](https://www.reddit.com/r/stocks/a) Earlier post by u/dave'' @ nl"

text \<open>A tweet of two lines, the second of which reads as the title of a section.\<close>

definition injected_tweets :: tweets_dict where
  "injected_tweets =
     [(''alice'',
       [\<lparr>tweet_id = ''3'', author_id = ''7'',
         tweet_text = ''Agenda:'' @ nl @ ''## Economic Calendar'', created_at = None,
         tweet_url = ''https://twitter.com/7/status/3''\<rparr>])]"

definition injected_report :: string where
  "injected_report =
     ''# Market Intelligence Report'' @ nl @
     ''_Generated on 2024-01-01 00:00 UTC_'' @ nl @
     nl @
     ''## Twitter Highlights'' @ nl @
     ''### @alice'' @ nl @
     ''- [](https://twitter.com/7/status/3) Agenda:'' @ nl @
     ''## Economic Calendar'' @ nl"

text \<open>
  Collectors for a test of \<open>main\<close> in which the economic collector fails and the Reddit
  collector delivers a post whose \<open>created_utc\<close> is in milliseconds.
\<close>

definition millisecond_reddit :: "(string list) collectors" where
  "millisecond_reddit =
     failing_economic\<lparr>reddit_collector :=
       (\<lambda>subs users limit w. (Inr [(''r/stocks'', [millisecond_post])], w @ [''reddit'']))\<rparr>"

text \<open>
  Providers that answer every request with a body that holds no record, and a library
  whose environment holds the bearer token of Twitter.
\<close>

definition token_lib :: lib where
  "token_lib = example_lib\<lparr>getenv := (\<lambda>name. Some ''token'')\<rparr>"

definition quiet_network :: network where
  "quiet_network =
     \<lparr>econ_net = (\<lambda>log req. Inr (Response 200 (Some (EconList [])))),
      nasdaq_net = (\<lambda>log req. Inr (Response 200 (Some NasdaqNoRows))),
      twitter_net = (\<lambda>log req. Inr (Response 200 (Some (TwitterBody None [])))),
      reddit_net = (\<lambda>log req. Inr (Response 200 (Some (RedditListing []))))\<rparr>"

definition offline_network :: network where
  "offline_network =
     \<lparr>econ_net = offline, nasdaq_net = offline, twitter_net = offline, reddit_net = offline\<rparr>"

text \<open>
  The reports of \<open>main\<close> when every provider answers without records, and when no
  provider can be reached.
\<close>

definition quiet_report :: string where
  "quiet_report =
     ''# Market Intelligence Report'' @ nl @
     ''_Generated on 2024-01-01 00:00 UTC_'' @ nl @
     nl @
     ''## Economic Calendar'' @ nl @
     ''No economic events found.'' @ nl @
     nl @
     ''## Earnings Calendar'' @ nl @
     ''### 738886'' @ nl @
     ''No scheduled earnings releases.'' @ nl @
     nl @
     ''### 738887'' @ nl @
     ''No scheduled earnings releases.'' @ nl @
     nl @
     ''## Twitter Highlights'' @ nl @
     ''### @alice'' @ nl @
     ''No recent tweets found.'' @ nl @
     nl @
     ''### @bob'' @ nl @
     ''No recent tweets found.'' @ nl @
     nl @
     ''## Reddit Highlights'' @ nl @
     ''### r/stocks'' @ nl @
     ''No new posts.'' @ nl"

definition offline_report :: string where
  "offline_report =
     ''# Market Intelligence Report'' @ nl @
     ''_Generated on 2024-01-01 00:00 UTC_'' @ nl @
     nl @
     ''## Economic Calendar'' @ nl @
     ''No economic events found.'' @ nl @
     nl @
     ''## Earnings Calendar'' @ nl @
     ''No earnings events found.'' @ nl @
     nl @
     ''## Twitter Highlights'' @ nl @
     ''No tweets collected.'' @ nl @
     nl @
     ''## Reddit Highlights'' @ nl @
     ''No Reddit activity found.'' @ nl"
section \<open>The request window\<close>

lemma daterange_Inr:
  "daterange s la = Inr (s', e') \<Longrightarrow> s' = s \<and> e' = s + max 0 la"
  by (auto simp: daterange_def timedelta_def date_add_def Let_def split: if_splits sum.splits)

lemma daterange_Inl:
  "daterange s la = Inl e \<Longrightarrow> kind e = OverflowError"
  by (auto simp: daterange_def timedelta_def date_add_def Let_def split: if_splits sum.splits)

lemma daterange_total:
  "valid_date s \<Longrightarrow> s + max 0 la \<le> MAXORDINAL \<Longrightarrow> daterange s la = Inr (s, s + max 0 la)"
  by (auto simp: daterange_def timedelta_def date_add_def Let_def valid_date_def MAXORDINAL_def)

lemma fetch_for_date_log:
  "snd (fetch_for_date L net d log) =
     log @ [\<lparr>req_url = EARNINGS_BASE_URL,
             req_params = [(''date'', strftime_date L DATE_FORMAT d)]\<rparr>]"
  by (auto simp: fetch_for_date_def session_get_def Let_def
           split: sum.splits option.splits nasdaq_json.splits prod.splits)

lemma fetch_days_log_mono:
  "length log \<le> length (snd (fetch_days L net c e evs log))"
proof (induction L net c e evs log rule: fetch_days.induct)
  case (1 L net current end_date events log)
  show ?case
  proof (cases "current \<le> end_date")
    case False
    then show ?thesis by (simp add: fetch_days.simps)
  next
    case True
    obtain r log' where f: "fetch_for_date L net current log = (r, log')"
      by (cases "fetch_for_date L net current log")
    have l: "length log' = Suc (length log)"
      using fetch_for_date_log[of L net current log] f by simp
    show ?thesis
    proof (cases r)
      case (Inl x)
      then show ?thesis using True f l by (simp add: fetch_days.simps)
    next
      case r: (Inr day_events)
      show ?thesis
      proof (cases "date_add current 1")
        case (Inl x)
        then show ?thesis using True f l r by (simp add: fetch_days.simps)
      next
        case (Inr next_day)
        have "length log' \<le>
                length (snd (fetch_days L net next_day end_date
                               (dict_set events current day_events) log'))"
          using "1.IH"[OF True f[symmetric] r Inr] by simp
        then show ?thesis
          using True f l Inr r by (simp add: fetch_days.simps[of L net current])
      qed
    qed
  qed
qed

lemma fetch_days_requests:
  assumes "c \<le> e"
  shows "length log < length (snd (fetch_days L net c e evs log))"
proof -
  obtain r log' where f: "fetch_for_date L net c log = (r, log')"
    by (cases "fetch_for_date L net c log")
  have l: "length log' = Suc (length log)"
    using fetch_for_date_log[of L net c log] f by simp
  show ?thesis
  proof (cases r)
    case (Inl x)
    then show ?thesis using assms f l by (simp add: fetch_days.simps)
  next
    case r: (Inr day_events)
    show ?thesis
    proof (cases "date_add c 1")
      case (Inl x)
      then show ?thesis using assms f l r by (simp add: fetch_days.simps)
    next
      case (Inr n)
      have "length log' \<le> length (snd (fetch_days L net n e (dict_set evs c day_events) log'))"
        by (rule fetch_days_log_mono)
      then show ?thesis
        using assms f l Inr r by (simp add: fetch_days.simps[of L net c])
    qed
  qed
qed

lemma fetch_economic_calendar_log:
  assumes "s \<le> e"
  shows "length (snd (fetch_economic_calendar L net (Some s) (Some e) imp cs cats cl se log)) =
           Suc (length log)"
proof -
  obtain params where p: "build_params L s e imp cs cats = Inr params"
    using assms by (simp add: build_params_def Let_def)
  show ?thesis
    by (simp add: fetch_economic_calendar_def p session_get_def Let_def
             split: sum.splits option.splits econ_json.splits prod.splits)
qed

lemma collect_overflow:
  assumes "daterange s la = Inl x"
  shows "collect_economic_data L net1 s la log = (Inl x, log)"
    and "collect_earnings_data L net2 s la log = (Inl x, log)"
  using assms by (simp_all add: collect_economic_data_def collect_earnings_data_def)

text \<open>
  C10. The window that \<open>_daterange\<close> builds has \<open>end = start + max(0, lookahead)\<close>, so
  \<open>end >= start\<close> also for a negative lookahead. For such a window \<open>_build_params\<close> does
  not raise, \<open>collect_economic_data\<close> goes on to its one request, and
  \<open>collect_earnings_data\<close> passes its check and requests at least the first day: the
  invalid-window error is out of reach of both. \<open>_daterange\<close> builds the window for every
  start date unless the end would lie beyond \<open>date.max\<close>; then it raises OverflowError,
  which is what the two collectors raise, without a request.
\<close>

theorem daterange_window_never_invalid:
  "(daterange s la = Inr (s', e') \<longrightarrow>
      s' = s \<and> e' = s + max 0 la \<and> s' \<le> e' \<and>
      (\<exists>params. build_params L s' e' imp cs cats = Inr params) \<and>
      length (snd (collect_economic_data L net1 s la log)) = Suc (length log) \<and>
      fetch_earnings L net2 (Some s') (Some e') log = fetch_days L net2 s' e' [] log \<and>
      length log < length (snd (collect_earnings_data L net2 s la log))) \<and>
   (valid_date s \<and> s + max 0 la \<le> MAXORDINAL \<longrightarrow>
      daterange s la = Inr (s, s + max 0 la)) \<and>
   (daterange s2 la2 = Inl x \<longrightarrow>
      kind x = OverflowError \<and>
      collect_economic_data L net1 s2 la2 log = (Inl x, log) \<and>
      collect_earnings_data L net2 s2 la2 log = (Inl x, log))"
proof -
  have a: "daterange s la = Inr (s', e') \<longrightarrow>
      s' = s \<and> e' = s + max 0 la \<and> s' \<le> e' \<and>
      (\<exists>params. build_params L s' e' imp cs cats = Inr params) \<and>
      length (snd (collect_economic_data L net1 s la log)) = Suc (length log) \<and>
      fetch_earnings L net2 (Some s') (Some e') log = fetch_days L net2 s' e' [] log \<and>
      length log < length (snd (collect_earnings_data L net2 s la log))"
  proof
    assume d: "daterange s la = Inr (s', e')"
    have w: "s' = s" "e' = s + max 0 la"
      using daterange_Inr[OF d] by simp_all
    then have le: "s' \<le> e'" by simp
    have bp: "\<exists>params. build_params L s' e' imp cs cats = Inr params"
      using le by (simp add: build_params_def Let_def)
    have fe: "fetch_earnings L net2 (Some s') (Some e') log = fetch_days L net2 s' e' [] log"
      using le by (simp add: fetch_earnings_def coerce_date_def)
    have ce: "collect_economic_data L net1 s la log =
                fetch_economic_calendar L net1 (Some s') (Some e') None None None None None log"
      using d by (simp add: collect_economic_data_def)
    have cn: "collect_earnings_data L net2 s la log = fetch_days L net2 s' e' [] log"
      using d fe by (simp add: collect_earnings_data_def)
    show "s' = s \<and> e' = s + max 0 la \<and> s' \<le> e' \<and>
      (\<exists>params. build_params L s' e' imp cs cats = Inr params) \<and>
      length (snd (collect_economic_data L net1 s la log)) = Suc (length log) \<and>
      fetch_earnings L net2 (Some s') (Some e') log = fetch_days L net2 s' e' [] log \<and>
      length log < length (snd (collect_earnings_data L net2 s la log))"
      using w le bp fe fetch_economic_calendar_log[OF le] fetch_days_requests[OF le]
      by (simp add: ce cn)
  qed
  have b: "valid_date s \<and> s + max 0 la \<le> MAXORDINAL \<longrightarrow>
      daterange s la = Inr (s, s + max 0 la)"
    using daterange_total by blast
  have c: "daterange s2 la2 = Inl x \<longrightarrow>
      kind x = OverflowError \<and>
      collect_economic_data L net1 s2 la2 log = (Inl x, log) \<and>
      collect_earnings_data L net2 s2 la2 log = (Inl x, log)"
    using daterange_Inl collect_overflow by blast
  show ?thesis
    using a b c by blast
qed

theorem daterange_window_never_invalid_witness:
  "valid_date 738886 \<and> 738886 + max 0 (- 3) \<le> MAXORDINAL \<and>
   daterange 738886 (- 3) = Inr (738886, 738886) \<and>
   length (snd (collect_economic_data example_lib offline 738886 (- 3) [])) = 1 \<and>
   0 < length (snd (collect_earnings_data example_lib offline 738886 (- 3) [])) \<and>
   daterange MAXORDINAL 1 = Inl (Exn OverflowError ''date value out of range'') \<and>
   collect_economic_data example_lib offline MAXORDINAL 1 [] =
     (Inl (Exn OverflowError ''date value out of range''), [])"
proof -
  have v: "valid_date 738886 \<and> 738886 + max 0 (- 3) \<le> MAXORDINAL"
    by (simp add: valid_date_def MAXORDINAL_def)
  have o: "daterange MAXORDINAL 1 = Inl (Exn OverflowError ''date value out of range'')"
    by (simp add: daterange_def timedelta_def date_add_def MAXORDINAL_def)
  note t = daterange_window_never_invalid[of 738886 "- 3" 738886 738886 example_lib None None
             None offline "[]" offline MAXORDINAL 1
             "Exn OverflowError ''date value out of range''"]
  have h: "daterange 738886 (- 3) = Inr (738886, 738886)"
    using t v by simp
  show ?thesis
    using t v h o by simp
qed

text \<open>
  C3, as the code has it. With \<open>end < start\<close>, \<open>fetch_economic_calendar\<close> and
  \<open>fetch_earnings\<close> raise ValueError and leave the log of requests as it was: nothing was
  sent.
\<close>

theorem invalid_window_fails_fast:
  assumes "e < s"
  shows "fetch_economic_calendar L net1 (Some s) (Some e) imp cs cats client secret log =
           (Inl (Exn ValueError ''end date must be after start date''), log) \<and>
         fetch_earnings L net2 (Some s) (Some e) log =
           (Inl (Exn ValueError ''end date must be after start date''), log)"
  using assms
  by (simp add: fetch_economic_calendar_def build_params_def fetch_earnings_def coerce_date_def)

theorem invalid_window_fails_fast_witness:
  "(738885 :: int) < 738886 \<and>
   fetch_economic_calendar example_lib offline (Some 738886) (Some 738885)
       None None None None None [] =
     (Inl (Exn ValueError ''end date must be after start date''), []) \<and>
   fetch_earnings example_lib offline (Some 738886) (Some 738885) [] =
     (Inl (Exn ValueError ''end date must be after start date''), [])"
proof -
  have h: "(738885 :: int) < 738886" by simp
  show ?thesis
    using h invalid_window_fails_fast[OF h, of example_lib offline None None None None None "[]"
                                       offline]
    by simp
qed

text \<open>
  C3, as stated, fails on the Twitter collector: \<open>fetch_recent_tweets\<close> with an
  \<open>end_time\<close> a day before its \<open>start_time\<close> raises nothing, sends both bounds to the
  provider and returns what the provider answers, after two requests.
\<close>

theorem twitter_window_not_validated:
  "fetch_recent_tweets example_lib example_twitter_net [''alice''] (Some ''token'') 10
       (Some ''2024-01-02T00:00:00Z'') (Some ''2024-01-01T00:00:00Z'') [] =
     (Inr [(''alice'',
            [\<lparr>tweet_id = ''1'', author_id = ''7'', tweet_text = '' hello '', created_at = None,
              tweet_url = ''https://twitter.com/7/status/1''\<rparr>])],
      [\<lparr>req_url = ''https://api.twitter.com/2/users/by'',
        req_params = [(''usernames'', ''alice''), (''user.fields'', ''username'')]\<rparr>,
       \<lparr>req_url = ''https://api.twitter.com/2/users/7/tweets'',
        req_params = [(''max_results'', ''10''), (''tweet.fields'', ''created_at,author_id''),
                      (''start_time'', ''2024-01-02T00:00:00Z''),
                      (''end_time'', ''2024-01-01T00:00:00Z'')]\<rparr>])"
  by code_simp

section \<open>Row order of the fragments\<close>

lemma events_rows_acc: "events_rows L events rows = rows @ map (econ_row L) events"
  by (induction events arbitrary: rows) simp_all

lemma earnings_day_rows_acc: "earnings_day_rows evs lines = lines @ map earnings_row evs"
  by (induction evs arbitrary: lines) simp_all

lemma earnings_lines_acc:
  "earnings_lines L events ds lines = lines @ concat (map (earnings_day_block L events) ds)"
  by (induction ds arbitrary: lines)
     (simp_all add: earnings_day_block_def earnings_day_rows_acc Let_def)

lemma tweet_item_lines_acc: "tweet_item_lines items lines = lines @ map tweet_line items"
  by (induction items arbitrary: lines) simp_all

lemma tweets_lines_acc: "tweets_lines tweets lines = lines @ concat (map tweet_block tweets)"
  by (induction tweets arbitrary: lines)
     (auto simp: tweet_block_def tweet_item_lines_acc Let_def)

lemma reddit_line_ok: "timestamp_ok post \<Longrightarrow> reddit_line L post = Inr (reddit_row L post)"
  by (cases "created_utc post")
     (simp_all add: reddit_line_def post_created_at_def parse_timestamp_def utcfromtimestamp_def
        timestamp_ok_def reddit_row_def created_text_def)

lemma reddit_line_Inr: "reddit_line L post = Inr l \<Longrightarrow> l = reddit_row L post"
  by (cases "created_utc post")
     (auto simp: reddit_line_def post_created_at_def parse_timestamp_def reddit_row_def
        created_text_def utcfromtimestamp_def split: sum.splits if_splits)

lemma reddit_entry_lines_acc:
  "reddit_entry_lines L entries lines = Inr ls \<Longrightarrow> ls = lines @ map (reddit_row L) entries"
proof (induction entries arbitrary: lines)
  case Nil
  then show ?case by simp
next
  case (Cons post entries)
  then obtain l where l: "reddit_line L post = Inr l" and
      r: "reddit_entry_lines L entries (lines @ [l]) = Inr ls"
    by (auto split: sum.splits)
  show ?case
    using Cons.IH[OF r] reddit_line_Inr[OF l] by simp
qed

lemma reddit_lines_acc:
  "reddit_lines L posts lines = Inr ls \<Longrightarrow> ls = lines @ concat (map (reddit_block L) posts)"
proof (induction posts arbitrary: lines)
  case Nil
  then show ?case by simp
next
  case (Cons entry posts)
  obtain source entries where e: "entry = (source, entries)" by (cases entry)
  show ?case
  proof (cases "entries = []")
    case True
    have rl: "reddit_lines L posts (lines @ [''### '' @ source] @ [''No new posts.'' @ nl]) = Inr ls"
      using Cons.prems e True by (simp add: Let_def)
    show ?thesis
      using Cons.IH[OF rl] True e by (simp add: reddit_block_def)
  next
    case False
    then obtain ls' where
      el: "reddit_entry_lines L entries (lines @ [''### '' @ source]) = Inr ls'" and
      rl: "reddit_lines L posts (ls' @ [[]]) = Inr ls"
      using Cons.prems e by (auto simp: Let_def split: sum.splits)
    show ?thesis
      using reddit_entry_lines_acc[OF el] Cons.IH[OF rl] False e
      by (simp add: reddit_block_def)
  qed
qed

lemma reddit_entry_lines_ok:
  "list_all timestamp_ok entries \<Longrightarrow>
     reddit_entry_lines L entries lines = Inr (lines @ map (reddit_row L) entries)"
  by (induction entries arbitrary: lines) (simp_all add: reddit_line_ok)

lemma reddit_lines_ok:
  "posts_ok posts \<Longrightarrow>
     reddit_lines L posts lines = Inr (lines @ concat (map (reddit_block L) posts))"
proof (induction posts arbitrary: lines)
  case Nil
  show ?case by simp
next
  case (Cons entry posts)
  obtain source entries where e: "entry = (source, entries)" by (cases entry)
  have ok: "list_all timestamp_ok entries" "posts_ok posts"
    using Cons.prems e by (simp_all add: posts_ok_def)
  show ?case
    unfolding e
    by (simp add: reddit_entry_lines_ok[OF ok(1)] Cons.IH[OF ok(2)] reddit_block_def Let_def)
qed

lemma reddit_to_markdown_ok:
  "posts_ok posts \<Longrightarrow> reddit_to_markdown L posts = Inr (reddit_fragment L posts)"
  by (simp add: reddit_to_markdown_def reddit_fragment_def reddit_lines_ok)

text \<open>
  C8, as stated, fails on Reddit posts: a result that is not empty and holds a post whose
  \<open>created_utc\<close> lies beyond year 9999 is not rendered at all, in any order.
\<close>

theorem reddit_rows_not_rendered:
  "reddit_to_markdown example_lib (example_posts @ [(''u/erin'', [millisecond_post])]) =
     Inl (Exn ValueError ''year is out of range'')"
  by code_simp

text \<open>
  C8, as the code has it. Every renderer lists the rows in the order of its input.
  Economic events: one row per event, in the order of the list, after the table header.
  Earnings: one block per date, the dates ascending, and within a date one row per event
  in the order of the list. Tweets: one block per handle in the insertion order of the
  dictionary, and within a block one line per tweet in the order delivered. Reddit posts,
  when the timestamp of every post is absent or within the years 1..9999: the renderer
  returns, with one block per key in the insertion order of the dictionary and within a
  block one line per post in the order delivered.
\<close>

theorem rows_in_delivery_order:
  "events_rows L events [] = map (econ_row L) events \<and>
   (events \<noteq> [] \<longrightarrow>
      events_to_markdown L events = join nl (econ_header # map (econ_row L) events) @ nl) \<and>
   sorted (sort (map fst earnings)) \<and>
   set (sort (map fst earnings)) = fst ` set earnings \<and>
   earnings_lines L earnings (sort (map fst earnings)) [] =
     concat (map (earnings_day_block L earnings) (sort (map fst earnings))) \<and>
   (earnings \<noteq> [] \<longrightarrow>
      earnings_to_markdown L earnings =
        strip (join nl (concat (map (earnings_day_block L earnings)
                                  (sort (map fst earnings))))) @ nl) \<and>
   tweets_lines tweets [] = concat (map tweet_block tweets) \<and>
   (tweets \<noteq> [] \<longrightarrow>
      tweets_to_markdown tweets = strip (join nl (concat (map tweet_block tweets))) @ nl) \<and>
   (timestamp_ok post \<longrightarrow> reddit_line L post = Inr (reddit_row L post)) \<and>
   (posts_ok posts \<longrightarrow>
      reddit_lines L posts [] = Inr (concat (map (reddit_block L) posts))) \<and>
   (posts \<noteq> [] \<and> posts_ok posts \<longrightarrow>
      reddit_to_markdown L posts =
        Inr (strip (join nl (concat (map (reddit_block L) posts))) @ nl))"
proof -
  have econ: "events_rows L events [] = map (econ_row L) events"
    by (simp add: events_rows_acc)
  have econ_text: "events \<noteq> [] \<longrightarrow>
      events_to_markdown L events = join nl (econ_header # map (econ_row L) events) @ nl"
    by (simp add: events_to_markdown_def econ)
  have earn: "earnings_lines L earnings (sort (map fst earnings)) [] =
     concat (map (earnings_day_block L earnings) (sort (map fst earnings)))"
    by (simp add: earnings_lines_acc)
  have earn_text: "earnings \<noteq> [] \<longrightarrow>
      earnings_to_markdown L earnings =
        strip (join nl (concat (map (earnings_day_block L earnings)
                                  (sort (map fst earnings))))) @ nl"
    by (simp add: earnings_to_markdown_def earn)
  have tw: "tweets_lines tweets [] = concat (map tweet_block tweets)"
    by (simp add: tweets_lines_acc)
  have tw_text: "tweets \<noteq> [] \<longrightarrow>
      tweets_to_markdown tweets = strip (join nl (concat (map tweet_block tweets))) @ nl"
    by (simp add: tweets_to_markdown_def tw)
  have rd_line: "timestamp_ok post \<longrightarrow> reddit_line L post = Inr (reddit_row L post)"
    using reddit_line_ok by blast
  have rd_lines: "posts_ok posts \<longrightarrow>
      reddit_lines L posts [] = Inr (concat (map (reddit_block L) posts))"
    by (simp add: reddit_lines_ok)
  have rd_text: "posts \<noteq> [] \<and> posts_ok posts \<longrightarrow>
      reddit_to_markdown L posts =
        Inr (strip (join nl (concat (map (reddit_block L) posts))) @ nl)"
    by (simp add: reddit_to_markdown_ok reddit_fragment_def)
  have srt: "sorted (sort (map fst earnings))" "set (sort (map fst earnings)) = fst ` set earnings"
    by simp_all
  show ?thesis
    using econ econ_text srt earn earn_text tw tw_text rd_line rd_lines rd_text by blast
qed

lemma example_posts_fragment:
  "reddit_to_markdown example_lib example_posts =
     Inr (''### r/stocks'' @ nl @
          ''- [2024-01-01 00:00 UTC](https://www.reddit.com/r/stocks/b) Later post by u/carol'' @ nl @
          ''- [](https://www.reddit.com/r/stocks/a) Earlier post by u/dave'' @ nl)"
  by code_simp

lemma example_posts_ok: "posts_ok example_posts"
  by code_simp

theorem rows_in_delivery_order_witness:
  "example_events \<noteq> [] \<and> example_earnings \<noteq> [] \<and> example_tweets \<noteq> [] \<and>
   example_posts \<noteq> [] \<and> posts_ok example_posts \<and> timestamp_ok example_post_no_time \<and>
   events_to_markdown example_lib example_events =
     join nl (econ_header # map (econ_row example_lib) example_events) @ nl \<and>
   sort (map fst example_earnings) = [738886, 738887] \<and>
   earnings_to_markdown example_lib example_earnings =
     strip (join nl (concat (map (earnings_day_block example_lib example_earnings)
                               [738886, 738887]))) @ nl \<and>
   tweets_to_markdown example_tweets = strip (join nl (concat (map tweet_block example_tweets))) @ nl \<and>
   reddit_line example_lib example_post_no_time =
     Inr (reddit_row example_lib example_post_no_time) \<and>
   reddit_to_markdown example_lib example_posts =
     Inr (strip (join nl (concat (map (reddit_block example_lib) example_posts))) @ nl)"
proof -
  have h1: "example_events \<noteq> []" by (simp add: example_events_def)
  have h2: "example_earnings \<noteq> []" by (simp add: example_earnings_def)
  have h3: "example_tweets \<noteq> []" by (simp add: example_tweets_def)
  have h4: "example_posts \<noteq> []" by (simp add: example_posts_def)
  have h5: "timestamp_ok example_post_no_time"
    by (simp add: timestamp_ok_def example_post_no_time_def)
  have s: "sort (map fst example_earnings) = [738886, 738887]"
    by (simp add: example_earnings_def)
  note t = rows_in_delivery_order[of example_lib example_events example_earnings example_tweets
                                    example_post_no_time example_posts]
  show ?thesis
    using t h1 h2 h3 h4 h5 example_posts_ok unfolding s by blast
qed

section \<open>Empty results and absent fields\<close>

lemma lstrip_hd: "lstrip s \<noteq> [] \<Longrightarrow> \<not> isspace (hd (lstrip s))"
  unfolding lstrip_def by (rule hd_dropWhile)

lemma rstrip_take: "rstrip s = take (length s - length (takeWhile isspace (rev s))) s"
  by (simp add: rstrip_def dropWhile_eq_drop rev_drop)

lemma rstrip_last: "rstrip s \<noteq> [] \<Longrightarrow> \<not> isspace (last (rstrip s))"
proof -
  assume a: "rstrip s \<noteq> []"
  then have d: "dropWhile isspace (rev s) \<noteq> []" by (simp add: rstrip_def)
  have "last (rstrip s) = hd (dropWhile isspace (rev s))"
    using d by (simp add: rstrip_def last_rev)
  then show ?thesis using hd_dropWhile[OF d] by simp
qed

lemma rstrip_hd: "rstrip s \<noteq> [] \<Longrightarrow> hd (rstrip s) = hd s"
proof -
  assume a: "rstrip s \<noteq> []"
  have t: "rstrip s = take (length s - length (takeWhile isspace (rev s))) s"
    by (rule rstrip_take)
  with a have "0 < length s - length (takeWhile isspace (rev s))" by auto
  then show ?thesis by (subst t) (rule hd_take)
qed

lemma trimmed_strip: "trimmed (strip s)"
proof (cases "strip s = []")
  case True
  then show ?thesis by (simp add: trimmed_def)
next
  case False
  then have r: "rstrip (lstrip s) \<noteq> []" by (simp add: strip_def)
  then have l: "lstrip s \<noteq> []" by (auto simp: rstrip_def)
  have "hd (strip s) = hd (lstrip s)" using rstrip_hd[OF r] by (simp add: strip_def)
  then have "\<not> isspace (hd (strip s))" using lstrip_hd[OF l] by simp
  moreover have "\<not> isspace (last (strip s))" using rstrip_last[OF r] by (simp add: strip_def)
  ultimately show ?thesis by (simp add: trimmed_def)
qed

text \<open>
  C6. An empty result renders the fixed sentence of its source: the empty list of economic
  events and the empty dictionaries of earnings, tweets and Reddit posts. The section is
  there, under its title, and it is not a table header without rows; a key without
  records renders its own sentence, again without a table header.
\<close>

theorem empty_result_renders_fixed_sentence:
  "events_to_markdown L [] = ''No economic events found.'' @ nl \<and>
   earnings_to_markdown L [] = ''No earnings events found.'' @ nl \<and>
   tweets_to_markdown [] = ''No tweets collected.'' @ nl \<and>
   reddit_to_markdown L [] = Inr (''No Reddit activity found.'' @ nl) \<and>
   report_lines L now (Some []) (Some []) (Some []) (Some []) =
     Inr (report_head L now @
          [''## Economic Calendar'', ''No economic events found.'' @ nl,
           ''## Earnings Calendar'', ''No earnings events found.'' @ nl,
           ''## Twitter Highlights'', ''No tweets collected.'' @ nl,
           ''## Reddit Highlights'', ''No Reddit activity found.'' @ nl]) \<and>
   events_to_markdown L [] \<noteq> econ_header @ nl \<and>
   earnings_to_markdown L [] \<noteq> earnings_table_header @ nl \<and>
   earnings_lines L [(d, [])] (sort (map fst [(d, [])])) [] =
     [''### '' @ strftime_date L ''%A, %B %d, %Y'' d, ''No scheduled earnings releases.'' @ nl] \<and>
   tweets_lines [(handle, [])] [] =
     [''### @'' @ lstrip_chars ''@'' handle, ''No recent tweets found.'' @ nl] \<and>
   reddit_lines L [(source, [])] [] = Inr [''### '' @ source, ''No new posts.'' @ nl]"
  by (simp add: events_to_markdown_def earnings_to_markdown_def tweets_to_markdown_def
        reddit_to_markdown_def report_lines_def economic_title_def earnings_title_def
        twitter_title_def reddit_title_def econ_header_def earnings_table_header_def Let_def)

text \<open>
  C5, as stated, fails: an economic event whose \<open>Country\<close> has surrounding blanks and whose
  \<open>Actual\<close> is null renders the blanks as they are and the cell of \<open>Actual\<close> as
  \<open>None\<close>.
\<close>

theorem econ_row_untrimmed_and_None:
  "events_to_markdown example_lib [untrimmed_null_event] =
     ''| Date | Time (UTC) | Country | Event | Actual | Forecast | Previous |'' @ nl @
     ''|---|---|---|---|---|---|---|'' @ nl @
     ''| 2024-01-02 |  |   United States  | CPI | None | 3.2% |  |'' @ nl"
  by code_simp

lemma map_of_dict_set: "map_of (dict_set d k v) k' = (if k' = k then Some v else map_of d k')"
  by (induction d k v rule: dict_set.induct) auto

lemma row_get_strip_trimmed: "row_get_strip r k = Inr s \<Longrightarrow> trimmed s"
  using trimmed_strip by (auto simp: row_get_strip_def split: option.splits)

lemma from_api_fields:
  assumes "from_api r d = Inr ev"
  shows "trimmed (symbol ev)" "trimmed (company ev)"
        "eps_estimate ev = row_get r ''epsForecast''" "eps_actual ev = row_get r ''epsActual''"
proof -
  obtain s c where s: "row_get_strip r ''symbol'' = Inr s" and
      c: "row_get_strip r ''companyName'' = Inr c" and
      ev: "ev = \<lparr>symbol = s, company = c, date = d,
                 eps_estimate = row_get r ''epsForecast'',
                 eps_actual = row_get r ''epsActual'',
                 time = opt_or (row_get r ''time'') (row_get r ''timeZone'')\<rparr>"
    using assms by (auto simp: from_api_def split: sum.splits)
  show "trimmed (symbol ev)" using row_get_strip_trimmed[OF s] ev by simp
  show "trimmed (company ev)" using row_get_strip_trimmed[OF c] ev by simp
  show "eps_estimate ev = row_get r ''epsForecast''" using ev by simp
  show "eps_actual ev = row_get r ''epsActual''" using ev by simp
qed

lemma econ_row_cells:
  "econ_row L (EconomicEvent data) =
     ''| '' @ date_cell L data @ '' | '' @ time_cell L data @
     '' | '' @ field_cell L data ''Country'' @ '' | '' @ field_cell L data ''Event'' @
     '' | '' @ field_cell L data ''Actual'' @ '' | '' @ field_cell L data ''Forecast'' @
     '' | '' @ field_cell L data ''Previous'' @ '' |''"
proof -
  have f: "\<And>k. py_str L (dict_get_default data k (PStr [])) = field_cell L data k"
    by (simp add: dict_get_default_def field_cell_def split: option.splits)
  have t: "py_str L (py_or (dict_get data ''Time'') (PStr [])) = time_cell L data"
    by (simp add: py_or_def dict_get_def dict_get_default_def time_cell_def
             split: option.splits)
  have d: "py_str L (py_or (py_or (py_or (dict_get data ''DateUtc'') (dict_get data ''DateUTC''))
                                  (dict_get data ''Date'')) (PStr [])) = date_cell L data"
    by (simp add: py_or_def date_cell_def)
  show ?thesis
    unfolding econ_row_def Let_def EconomicEvent.sel f t d ..
qed

text \<open>
  C5, as the code has it. An earnings event built by \<open>from_api\<close> has its symbol and company
  trimmed and keeps a null EPS as \<open>None\<close>; \<open>earnings_row\<close> renders an absent time or EPS as
  an empty cell. A tweet line shows the text trimmed and an absent \<open>created_at\<close> as empty.
  A Reddit line shows an absent timestamp as empty. A row of economic events is its seven
  cells between the bars, and the cell of a key that is missing is empty, as is the time
  cell for a missing or null \<open>Time\<close>: with \<open>Actual\<close>, \<open>Forecast\<close> and \<open>Previous\<close>
  missing the row ends in three empty cells.
\<close>

theorem absent_fields_render_empty:
  "(from_api r d = Inr ev \<longrightarrow>
      trimmed (symbol ev) \<and> trimmed (company ev) \<and>
      eps_estimate ev = row_get r ''epsForecast'' \<and> eps_actual ev = row_get r ''epsActual'') \<and>
   (time ev = None \<and> eps_estimate ev = None \<and> eps_actual ev = None \<longrightarrow>
      earnings_row ev = ''| '' @ symbol ev @ '' | '' @ company ev @ '' |  |  |  |'') \<and>
   (eps_actual ev = None \<longrightarrow>
      earnings_row ev =
        ''| '' @ symbol ev @ '' | '' @ company ev @ '' | '' @ or_empty (time ev) @ '' | '' @
        or_empty (eps_estimate ev) @ '' |  |'') \<and>
   (\<exists>shown. tweet_line tweet =
        ''- ['' @ or_empty (created_at tweet) @ '']('' @ tweet_url tweet @ '') '' @ shown \<and>
      shown = strip (tweet_text tweet) \<and> trimmed shown) \<and>
   (created_at tweet = None \<longrightarrow>
      tweet_line tweet = ''- []('' @ tweet_url tweet @ '') '' @ strip (tweet_text tweet)) \<and>
   (created_utc post = None \<longrightarrow>
      reddit_line L post =
        Inr (''- []('' @ post_url post @ '') '' @ title post @ '' by u/'' @ author post)) \<and>
   econ_row L (EconomicEvent data) =
     ''| '' @ date_cell L data @ '' | '' @ time_cell L data @
     '' | '' @ field_cell L data ''Country'' @ '' | '' @ field_cell L data ''Event'' @
     '' | '' @ field_cell L data ''Actual'' @ '' | '' @ field_cell L data ''Forecast'' @
     '' | '' @ field_cell L data ''Previous'' @ '' |'' \<and>
   (map_of data k = None \<longrightarrow> field_cell L data k = []) \<and>
   (map_of data ''Time'' = None \<or> map_of data ''Time'' = Some PNone \<longrightarrow> time_cell L data = []) \<and>
   (map_of data ''Actual'' = None \<and> map_of data ''Forecast'' = None \<and>
    map_of data ''Previous'' = None \<longrightarrow>
      econ_row L (EconomicEvent data) =
        ''| '' @ date_cell L data @ '' | '' @ time_cell L data @
        '' | '' @ field_cell L data ''Country'' @ '' | '' @ field_cell L data ''Event'' @
        '' |  |  |  |'') \<and>
   econ_row L (EconomicEvent []) = ''|  |  |  |  |  |  |  |''"
proof -
  have a: "from_api r d = Inr ev \<longrightarrow>
      trimmed (symbol ev) \<and> trimmed (company ev) \<and>
      eps_estimate ev = row_get r ''epsForecast'' \<and> eps_actual ev = row_get r ''epsActual''"
    using from_api_fields[of r d ev] by blast
  have b: "time ev = None \<and> eps_estimate ev = None \<and> eps_actual ev = None \<longrightarrow>
      earnings_row ev = ''| '' @ symbol ev @ '' | '' @ company ev @ '' |  |  |  |''"
    by (simp add: earnings_row_def)
  have c: "eps_actual ev = None \<longrightarrow>
      earnings_row ev =
        ''| '' @ symbol ev @ '' | '' @ company ev @ '' | '' @ or_empty (time ev) @ '' | '' @
        or_empty (eps_estimate ev) @ '' |  |''"
    by (simp add: earnings_row_def)
  have e: "\<exists>shown. tweet_line tweet =
        ''- ['' @ or_empty (created_at tweet) @ '']('' @ tweet_url tweet @ '') '' @ shown \<and>
      shown = strip (tweet_text tweet) \<and> trimmed shown"
    using trimmed_strip by (simp add: tweet_line_def)
  have f: "created_at tweet = None \<longrightarrow>
      tweet_line tweet = ''- []('' @ tweet_url tweet @ '') '' @ strip (tweet_text tweet)"
    by (simp add: tweet_line_def)
  have g: "created_utc post = None \<longrightarrow>
      reddit_line L post =
        Inr (''- []('' @ post_url post @ '') '' @ title post @ '' by u/'' @ author post)"
    by (simp add: reddit_line_def post_created_at_def parse_timestamp_def)
  have h: "map_of data k = None \<longrightarrow> field_cell L data k = []"
    by (simp add: field_cell_def)
  have i: "map_of data ''Time'' = None \<or> map_of data ''Time'' = Some PNone \<longrightarrow>
             time_cell L data = []"
    by (auto simp: time_cell_def)
  have j: "map_of data ''Actual'' = None \<and> map_of data ''Forecast'' = None \<and>
    map_of data ''Previous'' = None \<longrightarrow>
      econ_row L (EconomicEvent data) =
        ''| '' @ date_cell L data @ '' | '' @ time_cell L data @
        '' | '' @ field_cell L data ''Country'' @ '' | '' @ field_cell L data ''Event'' @
        '' |  |  |  |''"
    by (simp add: econ_row_cells field_cell_def)
  have k: "econ_row L (EconomicEvent []) = ''|  |  |  |  |  |  |  |''"
    by (simp add: econ_row_cells field_cell_def time_cell_def date_cell_def dict_get_def
          dict_get_default_def)
  show ?thesis
    using a b c e f g econ_row_cells[of L data] h i j k by blast
qed

theorem absent_fields_render_empty_witness:
  "from_api example_row_no_eps 738886 = Inr example_event_no_eps \<and>
   trimmed ''XYZ'' \<and> trimmed ''Xyz Corp'' \<and>
   earnings_row example_event_no_eps = ''| XYZ | Xyz Corp |  |  |  |'' \<and>
   tweet_line example_tweet_no_time = ''- [](https://twitter.com/7/status/1) first'' \<and>
   reddit_line example_lib example_post_no_time =
     Inr ''- [](https://www.reddit.com/r/stocks/a) Earlier post by u/dave'' \<and>
   map_of [(''Event'', PStr ''CPI'')] ''Actual'' = None \<and>
   field_cell example_lib [(''Event'', PStr ''CPI'')] ''Actual'' = [] \<and>
   econ_row example_lib (EconomicEvent [(''Event'', PStr ''CPI'')]) = ''|  |  |  | CPI |  |  |  |''"
proof -
  have h1: "from_api example_row_no_eps 738886 = Inr example_event_no_eps"
    by code_simp
  have h2: "time example_event_no_eps = None \<and> eps_estimate example_event_no_eps = None \<and>
            eps_actual example_event_no_eps = None"
    by (simp add: example_event_no_eps_def)
  have h3: "created_at example_tweet_no_time = None"
    by (simp add: example_tweet_no_time_def)
  have h4: "created_utc example_post_no_time = None"
    by (simp add: example_post_no_time_def)
  have h5: "map_of [(''Event'', PStr ''CPI'')] ''Actual'' = None"
    by simp
  have h6: "map_of [(''Event'', PStr ''CPI'')] ''Time'' = None"
    by simp
  have h7: "map_of [(''Event'', PStr ''CPI'')] ''Actual'' = None \<and>
            map_of [(''Event'', PStr ''CPI'')] ''Forecast'' = None \<and>
            map_of [(''Event'', PStr ''CPI'')] ''Previous'' = None"
    by simp
  have s: "symbol example_event_no_eps = ''XYZ''" "company example_event_no_eps = ''Xyz Corp''"
    by (simp_all add: example_event_no_eps_def)
  have u: "tweet_url example_tweet_no_time = ''https://twitter.com/7/status/1''"
       "strip (tweet_text example_tweet_no_time) = ''first''"
    by code_simp code_simp
  have p: "post_url example_post_no_time = ''https://www.reddit.com/r/stocks/a''"
       "title example_post_no_time = ''Earlier post''" "author example_post_no_time = ''dave''"
    by (simp_all add: example_post_no_time_def)
  have cells: "date_cell example_lib [(''Event'', PStr ''CPI'')] = []"
       "field_cell example_lib [(''Event'', PStr ''CPI'')] ''Country'' = []"
       "field_cell example_lib [(''Event'', PStr ''CPI'')] ''Event'' = ''CPI''"
    by (simp_all add: date_cell_def field_cell_def dict_get_def dict_get_default_def)
  note t = absent_fields_render_empty[of example_row_no_eps 738886 example_event_no_eps
              example_tweet_no_time example_post_no_time example_lib
              "[(''Event'', PStr ''CPI'')]" "''Actual''"]
  have c1: "trimmed ''XYZ'' \<and> trimmed ''Xyz Corp''"
    using t h1 unfolding s by blast
  have c2: "earnings_row example_event_no_eps = ''| XYZ | Xyz Corp |  |  |  |''"
    using t h2 unfolding s by simp
  have c3: "tweet_line example_tweet_no_time = ''- [](https://twitter.com/7/status/1) first''"
    using t h3 unfolding u by simp
  have c4: "reddit_line example_lib example_post_no_time =
     Inr ''- [](https://www.reddit.com/r/stocks/a) Earlier post by u/dave''"
    using t h4 unfolding p by simp
  have c5: "field_cell example_lib [(''Event'', PStr ''CPI'')] ''Actual'' = []"
    using t h5 by blast
  have c6: "time_cell example_lib [(''Event'', PStr ''CPI'')] = []"
    using t h6 by blast
  have c7: "econ_row example_lib (EconomicEvent [(''Event'', PStr ''CPI'')]) =
     ''| '' @ date_cell example_lib [(''Event'', PStr ''CPI'')] @ '' | '' @
     time_cell example_lib [(''Event'', PStr ''CPI'')] @
     '' | '' @ field_cell example_lib [(''Event'', PStr ''CPI'')] ''Country'' @ '' | '' @
     field_cell example_lib [(''Event'', PStr ''CPI'')] ''Event'' @ '' |  |  |  |''"
    using t h7 by blast
  have c8: "econ_row example_lib (EconomicEvent [(''Event'', PStr ''CPI'')]) =
     ''|  |  |  | CPI |  |  |  |''"
    unfolding c7 c6 cells by simp
  show ?thesis
    using h1 c1 c2 c3 c4 h5 c5 c8 by blast
qed

text \<open>
  The scenario of the specification: the row \<open>ABC\<close>, \<open>Abc Inc\<close>, an estimate of \<open>1.20\<close>
  and a null actual EPS renders with an empty EPS-actual cell.
\<close>

lemma scenario_abc_row:
  "from_api example_row 738886 =
     Inr \<lparr>symbol = ''ABC'', company = ''Abc Inc'', date = 738886, eps_estimate = Some ''1.20'',
          eps_actual = None, time = None\<rparr> \<and>
   earnings_to_markdown example_lib
     [(738886, [\<lparr>symbol = ''ABC'', company = ''Abc Inc'', date = 738886,
                 eps_estimate = Some ''1.20'', eps_actual = None, time = None\<rparr>])] =
     ''### 738886'' @ nl @
     ''| Symbol | Company | Time | EPS Estimate | EPS Actual |'' @ nl @
     ''|---|---|---|---|---|'' @ nl @
     ''| ABC | Abc Inc |  | 1.20 |  |'' @ nl"
  by code_simp

section \<open>Malformed timestamps\<close>

lemma try_formats_all_fail:
  "(\<And>fmt. fmt \<in> set fmts \<Longrightarrow> \<exists>msg. strptime L s fmt = Inl (Exn ValueError msg)) \<Longrightarrow>
     try_formats L s fmts = Inr None"
proof (induction fmts)
  case Nil
  then show ?case by simp
next
  case (Cons fmt fmts)
  obtain msg where m: "strptime L s fmt = Inl (Exn ValueError msg)"
    using Cons.prems[of fmt] by auto
  have "try_formats L s fmts = Inr None"
    using Cons.IH Cons.prems by simp
  then show ?case using m by simp
qed

lemma try_formats_no_ValueError:
  "try_formats L s fmts = Inl x \<Longrightarrow> kind x \<noteq> ValueError"
  by (induction fmts) (auto split: sum.splits if_splits)

lemma release_time_no_ValueError:
  "release_time L ev = Inl x \<Longrightarrow> kind x \<noteq> ValueError"
  by (auto simp: release_time_def Let_def dest: try_formats_no_ValueError
           split: if_splits pyval.splits)

lemma try_formats_returns:
  "(\<And>s fmt x. strptime L s fmt = Inl x \<Longrightarrow> kind x = ValueError) \<Longrightarrow>
     \<exists>r. try_formats L s fmts = Inr r"
  by (induction fmts) (auto split: sum.splits)

lemma release_time_returns:
  assumes "\<And>s fmt x. strptime L s fmt = Inl x \<Longrightarrow> kind x = ValueError"
  shows "\<exists>r. release_time L ev = Inr r"
proof -
  have t: "\<And>s. \<exists>r. try_formats L s release_formats = Inr r"
    using try_formats_returns[of L] assms by blast
  show ?thesis
    using t by (auto simp: release_time_def Let_def split: pyval.splits)
qed

lemma release_time_malformed:
  assumes "\<not> is_datetime (release_field ev)"
      and "\<And>fmt. fmt \<in> set release_formats \<Longrightarrow>
             \<exists>msg. strptime L (py_str L (release_field ev)) fmt = Inl (Exn ValueError msg)"
  shows "release_time L ev = Inr None"
proof -
  have t: "try_formats L (py_str L (release_field ev)) release_formats = Inr None"
    using assms(2) by (rule try_formats_all_fail)
  have rt: "release_time L ev =
              (if \<not> truthy (release_field ev) then Inr None
               else try_formats L (py_str L (release_field ev)) release_formats)"
    using assms(1)
    by (cases "release_field ev") (simp_all add: release_time_def release_field_def Let_def)
  show ?thesis
    by (simp add: rt t)
qed

lemma fetch_economic_calendar_keeps_all:
  assumes "s \<le> e"
      and "\<And>log req. net log req = Inr (Response 200 (Some (EconList items)))"
  shows "fst (fetch_economic_calendar L net (Some s) (Some e) imp cs cats cl se log) =
           Inr (map EconomicEvent items)"
proof -
  obtain params where p: "build_params L s e imp cs cats = Inr params"
    using assms(1) by (simp add: build_params_def Let_def)
  show ?thesis
    by (simp add: fetch_economic_calendar_def p session_get_def assms(2) raise_for_status_def
          Let_def)
qed

text \<open>
  C9, as stated, fails on the Reddit accessor: a post whose \<open>created_utc\<close> is in
  milliseconds is beyond year 9999, \<open>created_at\<close> raises instead of returning the empty
  text, and with it the rendering of the whole Reddit section.
\<close>

theorem reddit_created_at_raises:
  "post_created_at example_lib millisecond_post = Inl (Exn ValueError ''year is out of range'') \<and>
   reddit_to_markdown example_lib [(''r/stocks'', [example_post_no_time, millisecond_post])] =
     Inl (Exn ValueError ''year is out of range'')"
  by code_simp

text \<open>
  C9, as the code has it. \<open>EconomicEvent.release_time\<close> returns \<open>None\<close> for a timestamp
  that is not a datetime object and that \<open>strptime\<close> rejects with ValueError under both
  formats, and it never raises ValueError. The collection does not read the timestamps:
  \<open>fetch_economic_calendar\<close> returns one event for every object of the response, and
  every event gets its row. The Reddit accessor returns the empty text for an absent
  timestamp and for timestamp 0.
\<close>

theorem malformed_release_time_is_absent:
  "(\<not> is_datetime (release_field ev) \<and>
    (\<forall>fmt \<in> set release_formats.
       \<exists>msg. strptime L (py_str L (release_field ev)) fmt = Inl (Exn ValueError msg)) \<longrightarrow>
      release_time L ev = Inr None) \<and>
   (\<forall>x. release_time L ev = Inl x \<longrightarrow> kind x \<noteq> ValueError) \<and>
   (s \<le> e \<and> (\<forall>log req. net log req = Inr (Response 200 (Some (EconList items)))) \<longrightarrow>
      fst (fetch_economic_calendar L net (Some s) (Some e) imp cs cats cl se log) =
        Inr (map EconomicEvent items)) \<and>
   length (events_rows L (map EconomicEvent items) []) = length items \<and>
   parse_timestamp L None = Inr [] \<and> parse_timestamp L (Some 0) = Inr []"
proof -
  have a: "\<not> is_datetime (release_field ev) \<and>
    (\<forall>fmt \<in> set release_formats.
       \<exists>msg. strptime L (py_str L (release_field ev)) fmt = Inl (Exn ValueError msg)) \<longrightarrow>
      release_time L ev = Inr None"
    using release_time_malformed[of ev L] by blast
  have b: "\<forall>x. release_time L ev = Inl x \<longrightarrow> kind x \<noteq> ValueError"
    using release_time_no_ValueError by blast
  have c: "s \<le> e \<and> (\<forall>log req. net log req = Inr (Response 200 (Some (EconList items)))) \<longrightarrow>
      fst (fetch_economic_calendar L net (Some s) (Some e) imp cs cats cl se log) =
        Inr (map EconomicEvent items)"
    using fetch_economic_calendar_keeps_all[of s e net items] by blast
  have d: "length (events_rows L (map EconomicEvent items) []) = length items"
    by (simp add: events_rows_acc)
  have f: "parse_timestamp L None = Inr []" "parse_timestamp L (Some 0) = Inr []"
    by (simp_all add: parse_timestamp_def)
  show ?thesis
    using a b c d f by blast
qed

theorem malformed_release_time_is_absent_witness:
  "release_field (EconomicEvent [(''Event'', PStr ''CPI''), (''DateUTC'', PStr ''next Tuesday'')]) =
     PStr ''next Tuesday'' \<and>
   release_time example_lib
     (EconomicEvent [(''Event'', PStr ''CPI''), (''DateUTC'', PStr ''next Tuesday'')]) = Inr None \<and>
   fst (fetch_economic_calendar example_lib example_econ_net (Some 738886) (Some 738886)
          None None None None None []) =
     Inr [EconomicEvent [(''Event'', PStr ''CPI''), (''DateUTC'', PStr ''next Tuesday'')],
          EconomicEvent [(''Event'', PStr ''GDP''), (''DateUTC'', PStr ''2024-01-02T13:30:00'')]]"
proof -
  let ?ev = "EconomicEvent [(''Event'', PStr ''CPI''), (''DateUTC'', PStr ''next Tuesday'')]"
  let ?items = "[[(''Event'', PStr ''CPI''), (''DateUTC'', PStr ''next Tuesday'')],
                 [(''Event'', PStr ''GDP''), (''DateUTC'', PStr ''2024-01-02T13:30:00'')]]"
  have r: "release_field ?ev = PStr ''next Tuesday''"
    by (simp add: release_field_def dict_get_def dict_get_default_def py_or_def)
  have h1: "\<not> is_datetime (release_field ?ev)"
    by (simp add: r)
  have h2: "\<forall>fmt \<in> set release_formats.
       \<exists>msg. strptime example_lib (py_str example_lib (release_field ?ev)) fmt =
               Inl (Exn ValueError msg)"
    by (simp add: example_lib_def)
  have h3: "(738886 :: int) \<le> 738886" by simp
  have h4: "\<forall>log req. example_econ_net log req = Inr (Response 200 (Some (EconList ?items)))"
    by (simp add: example_econ_net_def)
  note t = malformed_release_time_is_absent[of ?ev example_lib 738886 738886 example_econ_net
             ?items None None None None None "[]"]
  have c1: "release_time example_lib ?ev = Inr None"
    using t h1 h2 by blast
  have c2: "fst (fetch_economic_calendar example_lib example_econ_net (Some 738886) (Some 738886)
          None None None None None []) = Inr (map EconomicEvent ?items)"
    using t h3 h4 by blast
  show ?thesis
    using r c1 c2 by simp
qed

section \<open>The assembled report\<close>

lemma isspace_nl: "isspace (CHR 0x0A)"
  by code_simp

lemma not_isspace_hash: "\<not> isspace (CHR ''#'')"
  by code_simp

lemma not_isspace_underscore: "\<not> isspace (CHR ''_'')"
  by code_simp

lemma lstrip_nonspace: "\<not> isspace c \<Longrightarrow> lstrip (c # s) = c # s"
  by (simp add: lstrip_def)

lemma rstrip_snoc_nl: "\<not> isspace c \<Longrightarrow> rstrip (s @ [c] @ nl) = s @ [c]"
  by (simp add: rstrip_def isspace_nl)

lemma report_lines_no_reddit:
  "report_lines L now ec ea tw None =
     Inr (report_head L now @
          section_lines economic_title (map_option (events_to_markdown L) ec) @
          section_lines earnings_title (map_option (earnings_to_markdown L) ea) @
          section_lines twitter_title (map_option tweets_to_markdown tw))"
  by (cases ec; cases ea; cases tw) (simp_all add: report_lines_def section_lines_def Let_def)

lemma report_lines_reddit:
  "report_lines L now ec ea tw (Some p) =
     (case reddit_to_markdown L p of
        Inl x \<Rightarrow> Inl x
      | Inr f \<Rightarrow>
          Inr (report_head L now @
               section_lines economic_title (map_option (events_to_markdown L) ec) @
               section_lines earnings_title (map_option (earnings_to_markdown L) ea) @
               section_lines twitter_title (map_option tweets_to_markdown tw) @
               section_lines reddit_title (Some f)))"
  by (cases ec; cases ea; cases tw)
     (simp_all add: report_lines_def section_lines_def Let_def split: sum.splits)

lemma strip_keeps_first:
  assumes "\<not> isspace c"
  shows "\<exists>u. strip (c # s) = c # u"
proof -
  have l: "lstrip (c # s) = c # s" using assms by (rule lstrip_nonspace)
  have "dropWhile isspace (rev (c # s)) \<noteq> []"
    using assms by (simp add: dropWhile_append)
  then have n: "rstrip (c # s) \<noteq> []" by (simp add: rstrip_def)
  then have "hd (rstrip (c # s)) = c" using rstrip_hd[OF n] by simp
  then have "rstrip (c # s) = c # tl (rstrip (c # s))"
    using n by (metis list.collapse)
  then show ?thesis by (metis l strip_def)
qed

lemma join_keeps_first: "\<exists>u. join sep ((c # x) # xs) = c # u"
  by (cases xs) simp_all

lemma stripped_join_first:
  assumes "\<not> isspace c"
  shows "\<exists>u. strip (join nl ((c # x) # xs)) @ nl = c # u"
proof -
  obtain v where v: "join nl ((c # x) # xs) = c # v"
    using join_keeps_first by blast
  obtain u where "strip (c # v) = c # u"
    using strip_keeps_first[OF assms] by blast
  then show ?thesis by (simp add: v)
qed

lemma events_to_markdown_first:
  "evs \<noteq> [] \<Longrightarrow> \<exists>u. events_to_markdown L evs = CHR ''|'' # u"
proof -
  assume "evs \<noteq> []"
  then have e: "events_to_markdown L evs = join nl (econ_header # map (econ_row L) evs) @ nl"
    by (simp add: events_to_markdown_def events_rows_acc)
  obtain x where h: "econ_header = CHR ''|'' # x"
    by (simp add: econ_header_def)
  obtain u where "join nl ((CHR ''|'' # x) # map (econ_row L) evs) = CHR ''|'' # u"
    using join_keeps_first by blast
  then show ?thesis by (simp add: e h)
qed

lemma earnings_to_markdown_first:
  assumes "eas \<noteq> []"
  shows "\<exists>u. earnings_to_markdown L eas = CHR ''#'' # u"
proof -
  have "sort (map fst eas) \<noteq> []"
    using assms by (metis length_sort length_map length_0_conv)
  then obtain d ds where d: "sort (map fst eas) = d # ds"
    by (cases "sort (map fst eas)") auto
  obtain x xs where b: "earnings_day_block L eas d @ concat (map (earnings_day_block L eas) ds) =
                           (CHR ''#'' # x) # xs"
    by (simp add: earnings_day_block_def Let_def)
  show ?thesis
    using stripped_join_first[OF not_isspace_hash, of x xs] assms
    by (simp add: earnings_to_markdown_def earnings_lines_acc d b)
qed

lemma tweets_to_markdown_first:
  assumes "tws \<noteq> []"
  shows "\<exists>u. tweets_to_markdown tws = CHR ''#'' # u"
proof -
  obtain e rest where e: "tws = e # rest" using assms by (cases tws) auto
  obtain x xs where b: "tweet_block e @ concat (map tweet_block rest) = (CHR ''#'' # x) # xs"
    by (simp add: tweet_block_def)
  show ?thesis
    using stripped_join_first[OF not_isspace_hash, of x xs]
    by (simp add: tweets_to_markdown_def tweets_lines_acc e b)
qed

lemma reddit_to_markdown_first:
  assumes "posts \<noteq> []" and "reddit_to_markdown L posts = Inr f"
  shows "\<exists>u. f = CHR ''#'' # u"
proof -
  obtain ls where ls: "reddit_lines L posts [] = Inr ls" and f: "f = strip (join nl ls) @ nl"
    using assms by (auto simp: reddit_to_markdown_def split: sum.splits)
  obtain e rest where e: "posts = e # rest" using assms(1) by (cases posts) auto
  obtain x xs where b: "reddit_block L e @ concat (map (reddit_block L) rest) = (CHR ''#'' # x) # xs"
    by (simp add: reddit_block_def)
  have "ls = (CHR ''#'' # x) # xs"
    using reddit_lines_acc[OF ls] e b by simp
  then show ?thesis
    using stripped_join_first[OF not_isspace_hash, of x xs] f by simp
qed

lemma populated_differs_from_empty:
  "evs \<noteq> [] \<Longrightarrow> events_to_markdown L evs \<noteq> events_to_markdown L []"
  "eas \<noteq> [] \<Longrightarrow> earnings_to_markdown L eas \<noteq> earnings_to_markdown L []"
  "tws \<noteq> [] \<Longrightarrow> tweets_to_markdown tws \<noteq> tweets_to_markdown []"
  "posts \<noteq> [] \<Longrightarrow> reddit_to_markdown L posts \<noteq> reddit_to_markdown L []"
proof -
  show "evs \<noteq> [] \<Longrightarrow> events_to_markdown L evs \<noteq> events_to_markdown L []"
    using events_to_markdown_first[of evs L] by (auto simp: events_to_markdown_def)
  show "eas \<noteq> [] \<Longrightarrow> earnings_to_markdown L eas \<noteq> earnings_to_markdown L []"
    using earnings_to_markdown_first[of eas L] by (auto simp: earnings_to_markdown_def)
  show "tws \<noteq> [] \<Longrightarrow> tweets_to_markdown tws \<noteq> tweets_to_markdown []"
    using tweets_to_markdown_first[of tws] by (auto simp: tweets_to_markdown_def)
  show "posts \<noteq> [] \<Longrightarrow> reddit_to_markdown L posts \<noteq> reddit_to_markdown L []"
  proof
    assume p: "posts \<noteq> []" and eq: "reddit_to_markdown L posts = reddit_to_markdown L []"
    have "reddit_to_markdown L posts = Inr (''No Reddit activity found.'' @ nl)"
      using eq by (simp add: reddit_to_markdown_def)
    from reddit_to_markdown_first[OF p this] show False by simp
  qed
qed


lemma not_isspace_dot: "\<not> isspace (CHR ''.'')"
  by code_simp

lemma not_isspace_bar: "\<not> isspace (CHR ''|'')"
  by code_simp

lemma join_snoc: "xs \<noteq> [] \<Longrightarrow> join sep (xs @ [y]) = join sep xs @ sep @ y"
proof (induction xs)
  case Nil
  then show ?case by simp
next
  case (Cons x xs)
  then show ?case by (cases xs) simp_all
qed

lemma trimmed_snoc:
  assumes "trimmed s" and "s \<noteq> []"
  shows "\<exists>u c. s = u @ [c] \<and> \<not> isspace c"
proof -
  have "s = butlast s @ [last s]" using assms(2) by simp
  moreover have "\<not> isspace (last s)" using assms by (simp add: trimmed_def)
  ultimately show ?thesis by blast
qed

lemma stripped_shape:
  assumes "strip t \<noteq> []"
  shows "\<exists>u c. strip t @ nl = u @ [c] @ nl \<and> \<not> isspace c"
  using trimmed_snoc[OF trimmed_strip assms] by auto

lemma events_to_markdown_shape:
  "\<exists>u c. events_to_markdown L evs = u @ [c] @ nl \<and> \<not> isspace c"
proof (cases "evs = []")
  case True
  have "events_to_markdown L evs = ''No economic events found'' @ [CHR ''.''] @ nl"
    using True by (simp add: events_to_markdown_def)
  then show ?thesis using not_isspace_dot by blast
next
  case False
  then have e: "evs = butlast evs @ [last evs]" by simp
  have r: "econ_row L (last evs) = butlast (econ_row L (last evs)) @ [CHR ''|'']"
    by (simp add: econ_row_def Let_def butlast_append)
  have "map (econ_row L) evs = map (econ_row L) (butlast evs) @ [econ_row L (last evs)]"
    by (subst e) simp
  then have "join nl (econ_header # map (econ_row L) evs) =
          join nl (econ_header # map (econ_row L) (butlast evs)) @ nl @ econ_row L (last evs)"
    using join_snoc[of "econ_header # map (econ_row L) (butlast evs)" nl "econ_row L (last evs)"]
    by simp
  then have "events_to_markdown L evs =
          (join nl (econ_header # map (econ_row L) (butlast evs)) @ nl @
           butlast (econ_row L (last evs))) @ [CHR ''|''] @ nl"
    using False r by (simp add: events_to_markdown_def events_rows_acc)
  then show ?thesis using not_isspace_bar by blast
qed

lemma earnings_to_markdown_shape:
  "\<exists>u c. earnings_to_markdown L eas = u @ [c] @ nl \<and> \<not> isspace c"
proof (cases "eas = []")
  case True
  have "earnings_to_markdown L eas = ''No earnings events found'' @ [CHR ''.''] @ nl"
    using True by (simp add: earnings_to_markdown_def)
  then show ?thesis using not_isspace_dot by blast
next
  case False
  let ?t = "join nl (earnings_lines L eas (sort (map fst eas)) [])"
  obtain v where "earnings_to_markdown L eas = CHR ''#'' # v"
    using earnings_to_markdown_first[OF False] by blast
  then have "strip ?t \<noteq> []"
    using False by (auto simp: earnings_to_markdown_def)
  then show ?thesis
    using stripped_shape[of ?t] False by (simp add: earnings_to_markdown_def)
qed

lemma tweets_to_markdown_shape:
  "\<exists>u c. tweets_to_markdown tws = u @ [c] @ nl \<and> \<not> isspace c"
proof (cases "tws = []")
  case True
  have "tweets_to_markdown tws = ''No tweets collected'' @ [CHR ''.''] @ nl"
    using True by (simp add: tweets_to_markdown_def)
  then show ?thesis using not_isspace_dot by blast
next
  case False
  let ?t = "join nl (tweets_lines tws [])"
  obtain v where "tweets_to_markdown tws = CHR ''#'' # v"
    using tweets_to_markdown_first[OF False] by blast
  then have "strip ?t \<noteq> []"
    using False by (auto simp: tweets_to_markdown_def)
  then show ?thesis
    using stripped_shape[of ?t] False by (simp add: tweets_to_markdown_def)
qed

lemma reddit_to_markdown_shape:
  assumes "reddit_to_markdown L posts = Inr f"
  shows "\<exists>u c. f = u @ [c] @ nl \<and> \<not> isspace c"
proof (cases "posts = []")
  case True
  have "f = ''No Reddit activity found'' @ [CHR ''.''] @ nl"
    using True assms by (simp add: reddit_to_markdown_def)
  then show ?thesis using not_isspace_dot by blast
next
  case False
  obtain ls where ls: "reddit_lines L posts [] = Inr ls" and f: "f = strip (join nl ls) @ nl"
    using assms False by (auto simp: reddit_to_markdown_def split: sum.splits)
  obtain v where "f = CHR ''#'' # v"
    using reddit_to_markdown_first[OF False assms] by blast
  then have "strip (join nl ls) \<noteq> []"
    using f by auto
  then show ?thesis
    using stripped_shape[of "join nl ls"] f by simp
qed

text \<open>A text has the shape of a finished line when it ends in a character that is not
  whitespace, followed by one newline.\<close>

lemma shape_append:
  assumes "\<exists>u c. b = u @ [c] @ nl \<and> \<not> isspace c"
  shows "\<exists>u c. a @ b = u @ [c] @ nl \<and> \<not> isspace c"
proof -
  obtain u c where "b = u @ [c] @ nl" "\<not> isspace c" using assms by blast
  then have "a @ b = (a @ u) @ [c] @ nl \<and> \<not> isspace c" by simp
  then show ?thesis by blast
qed

lemma section_text_shape:
  assumes "\<And>f. fo = Some f \<Longrightarrow> \<exists>u c. f = u @ [c] @ nl \<and> \<not> isspace c"
      and "\<exists>u c. a = u @ [c] @ nl \<and> \<not> isspace c"
  shows "\<exists>u c. a @ section_text t fo = u @ [c] @ nl \<and> \<not> isspace c"
proof (cases fo)
  case None
  then show ?thesis using assms(2) by (simp add: section_text_def)
next
  case (Some f)
  have "\<exists>u c. (nl @ t @ nl) @ f = u @ [c] @ nl \<and> \<not> isspace c"
    using assms(1)[OF Some] by (rule shape_append)
  then have "\<exists>u c. section_text t fo = u @ [c] @ nl \<and> \<not> isspace c"
    using Some by (simp add: section_text_def)
  then show ?thesis by (rule shape_append)
qed

lemma strip_finished:
  assumes "s = a # v" and "\<not> isspace a" and "s = u @ [c] @ nl" and "\<not> isspace c"
  shows "strip s @ nl = s"
proof -
  have l: "lstrip s = s"
    unfolding assms(1) using assms(2) by (rule lstrip_nonspace)
  have r: "rstrip s = u @ [c]"
    unfolding assms(3) using assms(4) by (rule rstrip_snoc_nl)
  have "strip s = u @ [c]"
    by (simp only: strip_def l r)
  then show ?thesis
    using assms(3) by simp
qed

lemma head_text_shape:
  "\<exists>u c. head_text L now = u @ [c] @ nl \<and> \<not> isspace c"
proof -
  have "head_text L now =
          (''# Market Intelligence Report'' @ nl @ ''_Generated on '' @
           strftime_datetime L ''%Y-%m-%d %H:%M %Z'' now) @ [CHR ''_''] @ nl"
    by (simp add: head_text_def stamp_line_def)
  then show ?thesis using not_isspace_underscore by blast
qed

lemma document_finished:
  assumes "\<And>f. f1 = Some f \<Longrightarrow> \<exists>u c. f = u @ [c] @ nl \<and> \<not> isspace c"
      and "\<And>f. f2 = Some f \<Longrightarrow> \<exists>u c. f = u @ [c] @ nl \<and> \<not> isspace c"
      and "\<And>f. f3 = Some f \<Longrightarrow> \<exists>u c. f = u @ [c] @ nl \<and> \<not> isspace c"
      and "\<And>f. f4 = Some f \<Longrightarrow> \<exists>u c. f = u @ [c] @ nl \<and> \<not> isspace c"
  shows "strip (document L now f1 f2 f3 f4) @ nl = document L now f1 f2 f3 f4"
proof -
  have s1: "\<exists>u c. head_text L now @ section_text economic_title f1 = u @ [c] @ nl \<and> \<not> isspace c"
    using section_text_shape[OF assms(1) head_text_shape] by blast
  have s2: "\<exists>u c. (head_text L now @ section_text economic_title f1) @
                   section_text earnings_title f2 = u @ [c] @ nl \<and> \<not> isspace c"
    using section_text_shape[OF assms(2) s1] by blast
  have s3: "\<exists>u c. ((head_text L now @ section_text economic_title f1) @
                   section_text earnings_title f2) @ section_text twitter_title f3 =
                  u @ [c] @ nl \<and> \<not> isspace c"
    using section_text_shape[OF assms(3) s2] by blast
  have s4: "\<exists>u c. (((head_text L now @ section_text economic_title f1) @
                   section_text earnings_title f2) @ section_text twitter_title f3) @
                   section_text reddit_title f4 = u @ [c] @ nl \<and> \<not> isspace c"
    using section_text_shape[OF assms(4) s3] by blast
  then obtain u c where d: "document L now f1 f2 f3 f4 = u @ [c] @ nl" and c: "\<not> isspace c"
    by (auto simp: document_def)
  obtain v where h: "document L now f1 f2 f3 f4 = CHR ''#'' # v"
    by (simp add: document_def head_text_def stamp_line_def)
  show ?thesis
    using strip_finished[OF h not_isspace_hash d c] .
qed

lemma join_append:
  "xs \<noteq> [] \<Longrightarrow> join sep (xs @ ys) = join sep xs @ concat (map ((@) sep) ys)"
proof (induction ys rule: rev_induct)
  case Nil
  then show ?case by simp
next
  case (snoc y ys)
  have "join sep ((xs @ ys) @ [y]) = join sep (xs @ ys) @ sep @ y"
    using snoc.prems by (intro join_snoc) simp
  then show ?case using snoc by simp
qed

lemma join_report_head: "join nl (report_head L now) = head_text L now"
  by (simp add: report_head_def head_text_def stamp_line_def)

lemma concat_section_lines:
  "concat (map ((@) nl) (section_lines t fo)) = section_text t fo"
  by (cases fo) (simp_all add: section_lines_def section_text_def)

lemma join_report_lines:
  "join nl (report_head L now @ section_lines economic_title f1 @
            section_lines earnings_title f2 @ section_lines twitter_title f3 @
            section_lines reddit_title f4) = document L now f1 f2 f3 f4"
proof -
  have n: "report_head L now \<noteq> []" by (simp add: report_head_def)
  show ?thesis
    by (simp add: join_append[OF n] join_report_head concat_section_lines document_def)
qed

lemma build_markdown_report_no_reddit:
  "build_markdown_report L now ec ea tw None =
     Inr (document L now (map_option (events_to_markdown L) ec)
            (map_option (earnings_to_markdown L) ea) (map_option tweets_to_markdown tw) None)"
proof -
  let ?f1 = "map_option (events_to_markdown L) ec"
  let ?f2 = "map_option (earnings_to_markdown L) ea"
  let ?f3 = "map_option tweets_to_markdown tw"
  have j: "join nl (report_head L now @ section_lines economic_title ?f1 @
            section_lines earnings_title ?f2 @ section_lines twitter_title ?f3) =
           document L now ?f1 ?f2 ?f3 None"
    using join_report_lines[of L now ?f1 ?f2 ?f3 None] by (simp add: section_lines_def)
  have s: "strip (document L now ?f1 ?f2 ?f3 None) @ nl = document L now ?f1 ?f2 ?f3 None"
    using events_to_markdown_shape earnings_to_markdown_shape tweets_to_markdown_shape
    by (intro document_finished) auto
  show ?thesis
    by (simp add: build_markdown_report_def report_lines_no_reddit j s)
qed

lemma build_markdown_report_reddit:
  assumes "reddit_to_markdown L p = Inr f"
  shows "build_markdown_report L now ec ea tw (Some p) =
     Inr (document L now (map_option (events_to_markdown L) ec)
            (map_option (earnings_to_markdown L) ea) (map_option tweets_to_markdown tw)
            (Some f))"
proof -
  let ?f1 = "map_option (events_to_markdown L) ec"
  let ?f2 = "map_option (earnings_to_markdown L) ea"
  let ?f3 = "map_option tweets_to_markdown tw"
  have s: "strip (document L now ?f1 ?f2 ?f3 (Some f)) @ nl = document L now ?f1 ?f2 ?f3 (Some f)"
    using events_to_markdown_shape earnings_to_markdown_shape tweets_to_markdown_shape
          reddit_to_markdown_shape[OF assms]
    by (intro document_finished) auto
  show ?thesis
    by (simp add: build_markdown_report_def report_lines_reddit assms join_report_lines s)
qed

lemma build_markdown_report_raises:
  "reddit_to_markdown L p = Inl e \<Longrightarrow> build_markdown_report L now ec ea tw (Some p) = Inl e"
  by (simp add: build_markdown_report_def report_lines_reddit)

lemma build_markdown_report_document:
  assumes "\<And>p. rd = Some p \<Longrightarrow> posts_ok p"
  shows "build_markdown_report L now ec ea tw rd =
     Inr (document L now (map_option (events_to_markdown L) ec)
            (map_option (earnings_to_markdown L) ea) (map_option tweets_to_markdown tw)
            (map_option (reddit_fragment L) rd))"
proof (cases rd)
  case None
  then show ?thesis by (simp add: build_markdown_report_no_reddit)
next
  case (Some p)
  have "reddit_to_markdown L p = Inr (reddit_fragment L p)"
    using assms[OF Some] by (rule reddit_to_markdown_ok)
  then show ?thesis
    using Some by (simp add: build_markdown_report_reddit)
qed

lemma split_on_not_Nil: "split_on sep s \<noteq> []"
  by (induction s) (auto split: list.splits)

lemma split_on_append:
  "split_on sep (a @ sep # b) = split_on sep a @ split_on sep b"
proof (induction a)
  case Nil
  show ?case by simp
next
  case (Cons c a)
  obtain w ws where w: "split_on sep a = w # ws"
    using split_on_not_Nil[of sep a] by (cases "split_on sep a") auto
  show ?case using Cons w by simp
qed

lemma split_on_single: "sep \<notin> set s \<Longrightarrow> split_on sep s = [s]"
  by (induction s) auto

lemma section_headers_append:
  "section_headers (a @ nl @ b) = section_headers a @ section_headers b"
  by (simp add: section_headers_def split_on_append)

lemma section_headers_Nil: "section_headers [] = []"
  by (simp add: section_headers_def is_header_def)

lemma section_headers_titles:
  "section_headers economic_title = [economic_title]"
  "section_headers earnings_title = [earnings_title]"
  "section_headers twitter_title = [twitter_title]"
  "section_headers reddit_title = [reddit_title]"
  by (simp_all add: section_headers_def is_header_def economic_title_def earnings_title_def
        twitter_title_def reddit_title_def)

lemma section_headers_section_text:
  assumes "section_headers t = [t]"
  shows "section_headers (x @ section_text t fo) =
           section_headers x @ (case fo of None \<Rightarrow> [] | Some f \<Rightarrow> t # section_headers f)"
proof (cases fo)
  case None
  then show ?thesis by (simp add: section_text_def)
next
  case (Some f)
  have "section_headers (x @ nl @ (t @ nl @ f)) =
          section_headers x @ section_headers t @ section_headers f"
    by (simp only: section_headers_append)
  then show ?thesis using Some assms by (simp add: section_text_def)
qed

lemma section_headers_head_text:
  "section_headers (head_text L now) = section_headers (stamp_line L now)"
proof -
  have t: "section_headers ''# Market Intelligence Report'' = []"
    by (simp add: section_headers_def is_header_def)
  have "head_text L now = ''# Market Intelligence Report'' @ nl @ (stamp_line L now @ nl @ [])"
    by (simp add: head_text_def)
  then have "section_headers (head_text L now) =
      section_headers ''# Market Intelligence Report'' @ section_headers (stamp_line L now) @
      section_headers []"
    by (simp only: section_headers_append)
  then show ?thesis by (simp add: t section_headers_Nil)
qed

lemma section_headers_document:
  "section_headers (document L now f1 f2 f3 f4) =
     section_headers (stamp_line L now) @
     (case f1 of None \<Rightarrow> [] | Some f \<Rightarrow> economic_title # section_headers f) @
     (case f2 of None \<Rightarrow> [] | Some f \<Rightarrow> earnings_title # section_headers f) @
     (case f3 of None \<Rightarrow> [] | Some f \<Rightarrow> twitter_title # section_headers f) @
     (case f4 of None \<Rightarrow> [] | Some f \<Rightarrow> reddit_title # section_headers f)"
proof -
  let ?d1 = "head_text L now @ section_text economic_title f1"
  let ?d2 = "?d1 @ section_text earnings_title f2"
  let ?d3 = "?d2 @ section_text twitter_title f3"
  let ?d4 = "?d3 @ section_text reddit_title f4"
  have d: "document L now f1 f2 f3 f4 = ?d4"
    by (simp add: document_def)
  have h1: "section_headers ?d1 = section_headers (stamp_line L now) @
      (case f1 of None \<Rightarrow> [] | Some f \<Rightarrow> economic_title # section_headers f)"
    by (simp only: section_headers_section_text[OF section_headers_titles(1)]
          section_headers_head_text)
  have h2: "section_headers ?d2 = section_headers ?d1 @
      (case f2 of None \<Rightarrow> [] | Some f \<Rightarrow> earnings_title # section_headers f)"
    by (rule section_headers_section_text[OF section_headers_titles(2)])
  have h3: "section_headers ?d3 = section_headers ?d2 @
      (case f3 of None \<Rightarrow> [] | Some f \<Rightarrow> twitter_title # section_headers f)"
    by (rule section_headers_section_text[OF section_headers_titles(3)])
  have h4: "section_headers ?d4 = section_headers ?d3 @
      (case f4 of None \<Rightarrow> [] | Some f \<Rightarrow> reddit_title # section_headers f)"
    by (rule section_headers_section_text[OF section_headers_titles(4)])
  show ?thesis
    unfolding d h4 h3 h2 h1 by simp
qed

lemma stamp_line_headerless:
  assumes "CHR 0x0A \<notin> set (strftime_datetime L ''%Y-%m-%d %H:%M %Z'' now)"
  shows "section_headers (stamp_line L now) = []"
proof -
  have "CHR 0x0A \<notin> set (stamp_line L now)" using assms by (simp add: stamp_line_def)
  then have "split_on (CHR 0x0A) (stamp_line L now) = [stamp_line L now]"
    by (rule split_on_single)
  then show ?thesis by (simp add: section_headers_def is_header_def stamp_line_def)
qed

lemma section_headers_headerless:
  assumes "CHR 0x0A \<notin> set (strftime_datetime L ''%Y-%m-%d %H:%M %Z'' now)"
      and "headerless_opt f1" "headerless_opt f2" "headerless_opt f3" "headerless_opt f4"
  shows "section_headers (document L now f1 f2 f3 f4) = present_titles f1 f2 f3 f4"
  using assms(2-)
  by (cases f1; cases f2; cases f3; cases f4)
     (simp_all add: section_headers_document stamp_line_headerless[OF assms(1)]
        present_titles_def headerless_def)

lemma document_all_present:
  "document L now (Some a) (Some b) (Some c) (Some d) =
     ''# Market Intelligence Report'' @ nl @ stamp_line L now @ nl @
     nl @ economic_title @ nl @ a @
     nl @ earnings_title @ nl @ b @
     nl @ twitter_title @ nl @ c @
     nl @ reddit_title @ nl @ d"
  by (simp add: document_def head_text_def section_text_def)

lemma document_all_absent:
  "document L now None None None None =
     ''# Market Intelligence Report'' @ nl @ stamp_line L now @ nl"
  by (simp add: document_def head_text_def section_text_def)

text \<open>
  C7, as stated, fails on the text of the document. A fragment is copied into the document
  as it is, so a tweet of two lines whose second line reads \<open>## Economic Calendar\<close> gives a
  document with that header after \<open>## Twitter Highlights\<close>, although the economic input
  is absent. And for a Reddit input with a post whose \<open>created_utc\<close> lies beyond year 9999
  no document is assembled at all.
\<close>

theorem section_header_from_tweet_text:
  "build_markdown_report example_lib example_now None None (Some injected_tweets) None =
     Inr injected_report \<and>
   section_headers injected_report = [''## Twitter Highlights'', ''## Economic Calendar''] \<and>
   build_markdown_report example_lib example_now None None None
       (Some [(''r/stocks'', [millisecond_post])]) =
     Inl (Exn ValueError ''year is out of range'')"
  by code_simp

text \<open>
  C7, as the code has it. When the \<open>created_utc\<close> of every Reddit post of the input is
  absent or within the years 1..9999, \<open>build_markdown_report\<close> returns the document: the
  title line and the timestamp line, then for every input that is present, in the order
  economic, earnings, Twitter, Reddit, a blank line, the title line of the section and
  its fragment; an absent input adds no text. The lines of the document that start with
  \<open>## \<close> are, in this order, those of the timestamp line and, for every fragment that is
  present, the title of its section followed by the lines of that kind in the fragment
  itself. So when the formatted timestamp holds no line break and no fragment holds a
  line that starts with \<open>## \<close>, they are the titles of the inputs that are present, in the
  fixed order. With all four inputs absent the document is the title line and the
  timestamp line and nothing else, and then it has no such line.
\<close>

theorem sections_in_fixed_order:
  "((\<forall>posts. rd = Some posts \<longrightarrow> posts_ok posts) \<longrightarrow>
      build_markdown_report L now ec ea tw rd =
        Inr (document L now (map_option (events_to_markdown L) ec)
               (map_option (earnings_to_markdown L) ea) (map_option tweets_to_markdown tw)
               (map_option (reddit_fragment L) rd))) \<and>
   document L now (Some a) (Some b) (Some c) (Some d) =
     ''# Market Intelligence Report'' @ nl @ stamp_line L now @ nl @
     nl @ economic_title @ nl @ a @
     nl @ earnings_title @ nl @ b @
     nl @ twitter_title @ nl @ c @
     nl @ reddit_title @ nl @ d \<and>
   section_text heading None = [] \<and>
   section_headers (document L now f1 f2 f3 f4) =
     section_headers (stamp_line L now) @
     (case f1 of None \<Rightarrow> [] | Some f \<Rightarrow> economic_title # section_headers f) @
     (case f2 of None \<Rightarrow> [] | Some f \<Rightarrow> earnings_title # section_headers f) @
     (case f3 of None \<Rightarrow> [] | Some f \<Rightarrow> twitter_title # section_headers f) @
     (case f4 of None \<Rightarrow> [] | Some f \<Rightarrow> reddit_title # section_headers f) \<and>
   (CHR 0x0A \<notin> set (strftime_datetime L ''%Y-%m-%d %H:%M %Z'' now) \<and>
    headerless_opt f1 \<and> headerless_opt f2 \<and> headerless_opt f3 \<and> headerless_opt f4 \<longrightarrow>
      section_headers (document L now f1 f2 f3 f4) = present_titles f1 f2 f3 f4) \<and>
   build_markdown_report L now None None None None =
     Inr (''# Market Intelligence Report'' @ nl @
          ''_Generated on '' @ strftime_datetime L ''%Y-%m-%d %H:%M %Z'' now @ ''_'' @ nl) \<and>
   (CHR 0x0A \<notin> set (strftime_datetime L ''%Y-%m-%d %H:%M %Z'' now) \<longrightarrow>
      section_headers (''# Market Intelligence Report'' @ nl @
          ''_Generated on '' @ strftime_datetime L ''%Y-%m-%d %H:%M %Z'' now @ ''_'' @ nl) = [])"
proof -
  let ?stamp = "strftime_datetime L ''%Y-%m-%d %H:%M %Z'' now"
  have c1: "(\<forall>posts. rd = Some posts \<longrightarrow> posts_ok posts) \<longrightarrow>
      build_markdown_report L now ec ea tw rd =
        Inr (document L now (map_option (events_to_markdown L) ec)
               (map_option (earnings_to_markdown L) ea) (map_option tweets_to_markdown tw)
               (map_option (reddit_fragment L) rd))"
    using build_markdown_report_document[of rd L now ec ea tw] by blast
  have c3: "section_text heading None = []"
    by (simp add: section_text_def)
  have c5: "CHR 0x0A \<notin> set ?stamp \<and>
    headerless_opt f1 \<and> headerless_opt f2 \<and> headerless_opt f3 \<and> headerless_opt f4 \<longrightarrow>
      section_headers (document L now f1 f2 f3 f4) = present_titles f1 f2 f3 f4"
    using section_headers_headerless[of L now f1 f2 f3 f4] by blast
  have d0: "document L now None None None None =
          ''# Market Intelligence Report'' @ nl @ ''_Generated on '' @ ?stamp @ ''_'' @ nl"
    by (simp add: document_all_absent stamp_line_def)
  have c6: "build_markdown_report L now None None None None =
     Inr (''# Market Intelligence Report'' @ nl @ ''_Generated on '' @ ?stamp @ ''_'' @ nl)"
    using build_markdown_report_no_reddit[of L now None None None] by (simp add: d0)
  have c7: "CHR 0x0A \<notin> set ?stamp \<longrightarrow>
      section_headers (''# Market Intelligence Report'' @ nl @ ''_Generated on '' @ ?stamp @
                       ''_'' @ nl) = []"
  proof
    assume n: "CHR 0x0A \<notin> set ?stamp"
    have "section_headers (document L now None None None None) =
            present_titles (None :: string option) (None :: string option)
              (None :: string option) (None :: string option)"
      using n by (intro section_headers_headerless) simp_all
    then show "section_headers (''# Market Intelligence Report'' @ nl @ ''_Generated on '' @
                 ?stamp @ ''_'' @ nl) = []"
      by (simp add: d0 present_titles_def)
  qed
  show ?thesis
    using c1 document_all_present[of L now a b c d] c3 section_headers_document[of L now f1 f2 f3 f4]
          c5 c6 c7
    by blast
qed

theorem sections_in_fixed_order_witness:
  "posts_ok example_posts \<and>
   CHR 0x0A \<notin> set (strftime_datetime example_lib ''%Y-%m-%d %H:%M %Z'' example_now) \<and>
   headerless (events_to_markdown example_lib example_events) \<and>
   headerless (tweets_to_markdown example_tweets) \<and>
   headerless (reddit_fragment example_lib example_posts) \<and>
   build_markdown_report example_lib example_now (Some example_events) None
       (Some example_tweets) (Some example_posts) =
     Inr (document example_lib example_now (Some (events_to_markdown example_lib example_events))
            None (Some (tweets_to_markdown example_tweets))
            (Some (reddit_fragment example_lib example_posts))) \<and>
   section_headers
     (document example_lib example_now (Some (events_to_markdown example_lib example_events))
        None (Some (tweets_to_markdown example_tweets))
        (Some (reddit_fragment example_lib example_posts))) =
     [''## Economic Calendar'', ''## Twitter Highlights'', ''## Reddit Highlights'']"
proof -
  let ?f1 = "Some (events_to_markdown example_lib example_events)"
  let ?f2 = "None :: string option"
  let ?f3 = "Some (tweets_to_markdown example_tweets)"
  let ?f4 = "Some (reddit_fragment example_lib example_posts)"
  have h1: "\<forall>posts. Some example_posts = Some posts \<longrightarrow> posts_ok posts"
    using example_posts_ok by simp
  have h2: "CHR 0x0A \<notin> set (strftime_datetime example_lib ''%Y-%m-%d %H:%M %Z'' example_now)"
    by (simp add: example_lib_def)
  have k1: "headerless (events_to_markdown example_lib example_events)" by code_simp
  have k3: "headerless (tweets_to_markdown example_tweets)" by code_simp
  have k4: "headerless (reddit_fragment example_lib example_posts)" by code_simp
  have h3: "headerless_opt ?f1 \<and> headerless_opt ?f2 \<and> headerless_opt ?f3 \<and> headerless_opt ?f4"
    using k1 k3 k4 by simp
  note t = sections_in_fixed_order[of "Some example_posts" example_lib example_now
             "Some example_events" None "Some example_tweets" "[]" "[]" "[]" "[]" "[]"
             ?f1 ?f2 ?f3 ?f4]
  have b: "build_markdown_report example_lib example_now (Some example_events) None
       (Some example_tweets) (Some example_posts) =
     Inr (document example_lib example_now ?f1 ?f2 ?f3 ?f4)"
    using t h1 by simp
  have "section_headers (document example_lib example_now ?f1 ?f2 ?f3 ?f4) =
          present_titles ?f1 ?f2 ?f3 ?f4"
    using t h2 h3 by blast
  then have s: "section_headers (document example_lib example_now ?f1 ?f2 ?f3 ?f4) =
          [''## Economic Calendar'', ''## Twitter Highlights'', ''## Reddit Highlights'']"
    by (simp add: present_titles_def economic_title_def twitter_title_def reddit_title_def)
  show ?thesis
    using example_posts_ok h2 k1 k3 k4 b s by blast
qed

section \<open>Determinism of the assembler\<close>

lemma py_str_lib: "str_datetime L1 = str_datetime L2 \<Longrightarrow> py_str L1 v = py_str L2 v"
  by (cases v) simp_all

lemma econ_row_lib: "str_datetime L1 = str_datetime L2 \<Longrightarrow> econ_row L1 = econ_row L2"
  by (rule ext) (simp add: econ_row_def py_str_lib[of L1 L2] Let_def)

lemma events_to_markdown_lib:
  "str_datetime L1 = str_datetime L2 \<Longrightarrow> events_to_markdown L1 evs = events_to_markdown L2 evs"
  using econ_row_lib[of L1 L2] by (simp add: events_to_markdown_def events_rows_acc)

lemma earnings_day_block_lib:
  "strftime_date L1 = strftime_date L2 \<Longrightarrow> earnings_day_block L1 = earnings_day_block L2"
  by (intro ext) (simp add: earnings_day_block_def)

lemma earnings_to_markdown_lib:
  "strftime_date L1 = strftime_date L2 \<Longrightarrow>
     earnings_to_markdown L1 evs = earnings_to_markdown L2 evs"
  using earnings_day_block_lib[of L1 L2]
  by (simp add: earnings_to_markdown_def earnings_lines_acc)

lemma utcfromtimestamp_lib:
  assumes "gmtime L1 = gmtime L2"
  shows "utcfromtimestamp L1 = utcfromtimestamp L2"
  by (rule ext) (simp add: utcfromtimestamp_def assms)

lemma reddit_line_lib:
  assumes "strftime_datetime L1 = strftime_datetime L2" and "gmtime L1 = gmtime L2"
  shows "reddit_line L1 = reddit_line L2"
  unfolding reddit_line_def post_created_at_def parse_timestamp_def
    utcfromtimestamp_lib[OF assms(2)] assms(1) ..

lemma reddit_entry_lines_lib:
  assumes "strftime_datetime L1 = strftime_datetime L2" and "gmtime L1 = gmtime L2"
  shows "reddit_entry_lines L1 entries lines = reddit_entry_lines L2 entries lines"
proof (induction entries arbitrary: lines)
  case Nil
  show ?case by simp
next
  case (Cons post entries)
  show ?case
    by (cases "reddit_line L2 post") (simp_all add: reddit_line_lib[OF assms] Cons.IH)
qed

lemma reddit_lines_lib:
  assumes "strftime_datetime L1 = strftime_datetime L2" and "gmtime L1 = gmtime L2"
  shows "reddit_lines L1 posts lines = reddit_lines L2 posts lines"
proof (induction posts arbitrary: lines)
  case Nil
  show ?case by simp
next
  case (Cons entry posts)
  obtain source entries where e: "entry = (source, entries)" by (cases entry)
  show ?case
  proof (cases "entries = []")
    case True
    then show ?thesis unfolding e by (simp add: Cons.IH Let_def)
  next
    case False
    then show ?thesis
      unfolding e
      by (cases "reddit_entry_lines L2 entries (lines @ [''### '' @ source])")
         (simp_all add: reddit_entry_lines_lib[OF assms] Cons.IH Let_def)
  qed
qed

lemma reddit_to_markdown_lib:
  assumes "strftime_datetime L1 = strftime_datetime L2" and "gmtime L1 = gmtime L2"
  shows "reddit_to_markdown L1 posts = reddit_to_markdown L2 posts"
  by (simp add: reddit_to_markdown_def reddit_lines_lib[OF assms])

text \<open>
  C4. \<open>build_markdown_report\<close> is a function of its arguments and of the formatting
  routines of the library alone: two calls with identical arguments return the same
  text, whatever the clock (\<open>today\<close>), the environment (\<open>getenv\<close>) and the parsing
  routines are at the two calls. No clock is read: the generation time in the text is the
  supplied \<open>generated_at\<close>.
\<close>

theorem build_markdown_report_deterministic:
  assumes "strftime_date L1 = strftime_date L2"
      and "strftime_datetime L1 = strftime_datetime L2"
      and "str_datetime L1 = str_datetime L2"
      and "gmtime L1 = gmtime L2"
      and "g1 = g2" and "ec1 = ec2" and "ea1 = ea2" and "tw1 = tw2" and "rd1 = rd2"
  shows "build_markdown_report L1 g1 ec1 ea1 tw1 rd1 = build_markdown_report L2 g2 ec2 ea2 tw2 rd2"
proof -
  have h: "report_head L1 g1 = report_head L2 g2"
    using assms(2,5) by (simp add: report_head_def)
  have e1: "events_to_markdown L1 = events_to_markdown L2"
    using events_to_markdown_lib[OF assms(3)] by (intro ext)
  have e2: "earnings_to_markdown L1 = earnings_to_markdown L2"
    using earnings_to_markdown_lib[OF assms(1)] by (intro ext)
  have e3: "reddit_to_markdown L1 = reddit_to_markdown L2"
    using reddit_to_markdown_lib[OF assms(2,4)] by (intro ext)
  have "report_lines L1 g1 ec1 ea1 tw1 rd1 = report_lines L2 g2 ec2 ea2 tw2 rd2"
    unfolding report_lines_def h assms(6-9) e1 e2 e3 ..
  then show ?thesis
    by (simp add: build_markdown_report_def)
qed

theorem build_markdown_report_deterministic_witness:
  "build_markdown_report example_lib example_now (Some example_events) (Some example_earnings)
     (Some example_tweets) (Some example_posts) =
   build_markdown_report (example_lib\<lparr>getenv := (\<lambda>name. Some ''secret''), today := 1\<rparr>)
     example_now (Some example_events) (Some example_earnings)
     (Some example_tweets) (Some example_posts)"
  by (rule build_markdown_report_deterministic) simp_all

section \<open>The pipeline\<close>

text \<open>
  C2, as stated, fails: the run whose economic collector fails and the run whose economic
  collector succeeds with no events write the same report, the section of the failed
  source reading \<open>No economic events found.\<close>; the failure shows on the diagnostic stream
  only.
\<close>

theorem failed_and_empty_render_alike:
  "main_with failing_economic example_lib example_now example_args [] =
     (Inr 0,
      \<lparr>stderr = [''Failed to fetch economic data: connection refused''],
       stdout = [''Report written to market_report.md''],
       files = [(''market_report.md'', degraded_report)]\<rparr>,
      [''economic'', ''earnings'', ''twitter'', ''reddit'']) \<and>
   main_with empty_economic example_lib example_now example_args [] =
     (Inr 0,
      \<lparr>stderr = [],
       stdout = [''Report written to market_report.md''],
       files = [(''market_report.md'', degraded_report)]\<rparr>,
      [''economic'', ''earnings'', ''twitter'', ''reddit''])"
  by code_simp

lemma try_collect_eq:
  "try_collect en c [] label w =
     (section_input en c w, diagnostic en c label w, world_after en c w)"
  by (cases "c w"; cases "fst (c w)")
     (simp_all add: try_collect_def section_input_def diagnostic_def world_after_def)

lemma main_with_eq:
  "main_with C L now a w0 =
     (case build_markdown_report L now (economic_section C a w0) (earnings_section C a w0)
             (twitter_section C a w0) (reddit_section C a w0) of
        Inl e \<Rightarrow>
          (Inl e, \<lparr>stderr = diagnostics C a w0, stdout = [], files = []\<rparr>, reddit_world C a w0)
      | Inr report \<Rightarrow>
          (Inr 0,
           \<lparr>stderr = diagnostics C a w0,
            stdout = [''Report written to '' @ output_path a],
            files = [(output_path a, report)]\<rparr>,
           reddit_world C a w0))"
  by (simp add: main_with_def try_collect_eq economic_section_def earnings_section_def
        twitter_section_def reddit_section_def economic_world_def earnings_world_def
        twitter_world_def reddit_world_def reddit_call_def diagnostics_def Let_def
        split: sum.splits)

lemma section_input_None: "section_input enabled collect w = None \<longleftrightarrow> \<not> enabled"
  by (simp add: section_input_def)

lemma reddit_section_ok:
  assumes "\<And>posts. reddit_enabled a \<Longrightarrow>
             fst (reddit_call C a (twitter_world C a w0)) = Inr posts \<Longrightarrow> posts_ok posts"
      and "reddit_section C a w0 = Some posts"
  shows "posts_ok posts"
proof -
  have en: "reddit_enabled a"
    using assms(2) by (auto simp: reddit_section_def section_input_def split: if_splits)
  show ?thesis
  proof (cases "fst (reddit_call C a (twitter_world C a w0))")
    case (Inl exc)
    then have "posts = []"
      using assms(2) en by (simp add: reddit_section_def section_input_def)
    then show ?thesis by (simp add: posts_ok_def)
  next
    case (Inr result)
    then have "posts = result"
      using assms(2) en by (simp add: reddit_section_def section_input_def)
    then show ?thesis using assms(1)[OF en Inr] by simp
  qed
qed

lemma main_with_document:
  assumes "\<And>posts. reddit_enabled a \<Longrightarrow>
             fst (reddit_call C a (twitter_world C a w0)) = Inr posts \<Longrightarrow> posts_ok posts"
  shows "main_with C L now a w0 =
           (Inr 0,
            \<lparr>stderr = diagnostics C a w0,
             stdout = [''Report written to '' @ output_path a],
             files = [(output_path a,
                       document L now
                         (map_option (events_to_markdown L) (economic_section C a w0))
                         (map_option (earnings_to_markdown L) (earnings_section C a w0))
                         (map_option tweets_to_markdown (twitter_section C a w0))
                         (map_option (reddit_fragment L) (reddit_section C a w0)))]\<rparr>,
            reddit_world C a w0)"
proof -
  have "build_markdown_report L now (economic_section C a w0) (earnings_section C a w0)
          (twitter_section C a w0) (reddit_section C a w0) =
        Inr (document L now
               (map_option (events_to_markdown L) (economic_section C a w0))
               (map_option (earnings_to_markdown L) (earnings_section C a w0))
               (map_option tweets_to_markdown (twitter_section C a w0))
               (map_option (reddit_fragment L) (reddit_section C a w0)))"
    by (rule build_markdown_report_document) (rule reddit_section_ok[OF assms])
  then show ?thesis
    unfolding main_with_eq by simp
qed

lemma main_with_world: "snd (snd (main_with C L now a w0)) = reddit_world C a w0"
  by (simp add: main_with_eq split: sum.splits)

lemma main_with_stderr: "stderr (fst (snd (main_with C L now a w0))) = diagnostics C a w0"
  by (simp add: main_with_eq split: sum.splits)

lemma reddit_world_all_enabled:
  assumes "economic_enabled a" "earnings_enabled a" "twitter_enabled a" "reddit_enabled a"
  shows "reddit_world C a w0 =
     snd (reddit_call C a
       (snd (twitter_collector C (parse_handles (twitter a))
         (snd (earnings_collector C (start a) (lookahead a)
           (snd (economic_collector C (start a) (lookahead a) w0)))))))"
  using assms
  by (simp add: reddit_world_def twitter_world_def earnings_world_def economic_world_def
        world_after_def)

lemma dict_set_not_Nil: "dict_set d k v \<noteq> []"
  by (cases d) (auto split: if_splits)

lemma fetch_days_not_Nil:
  "fetch_days L net current end_date events log = (Inr d, log') \<Longrightarrow>
     events \<noteq> [] \<or> current \<le> end_date \<Longrightarrow> d \<noteq> []"
proof (induction L net current end_date events log rule: fetch_days.induct)
  case (1 L net current end_date events log)
  show ?case
  proof (cases "current \<le> end_date")
    case False
    then show ?thesis using "1.prems" by (simp add: fetch_days.simps)
  next
    case True
    obtain r log1 where f: "fetch_for_date L net current log = (r, log1)"
      by (cases "fetch_for_date L net current log")
    from "1.prems"(1) True f obtain day_events next_day where
      r: "r = Inr day_events" and n: "date_add current 1 = Inr next_day" and
      rec: "fetch_days L net next_day end_date (dict_set events current day_events) log1 =
              (Inr d, log')"
      by (subst (asm) fetch_days.simps) (auto split: sum.splits)
    show ?thesis
      using "1.IH"[OF True f[symmetric, unfolded r] refl n rec]
      by (simp add: dict_set_not_Nil)
  qed
qed

lemma collect_earnings_data_not_Nil:
  assumes "fst (collect_earnings_data L net s la log) = Inr d"
  shows "d \<noteq> []"
proof -
  obtain s' e' where dr: "daterange s la = Inr (s', e')"
    using assms by (cases "daterange s la") (auto simp: collect_earnings_data_def)
  have o: "s' \<le> e'" using daterange_Inr[OF dr] by simp
  obtain log' where "fetch_days L net s' e' [] log = (Inr d, log')"
    using assms dr o
    by (cases "fetch_days L net s' e' [] log")
       (auto simp: collect_earnings_data_def fetch_earnings_def coerce_date_def Let_def)
  from fetch_days_not_Nil[OF this] show ?thesis using o by simp
qed

lemma empty_timelines_not_Nil:
  "handles \<noteq> [] \<or> acc \<noteq> [] \<Longrightarrow> empty_timelines handles acc \<noteq> []"
  by (induction handles arbitrary: acc) (auto simp: dict_set_not_Nil)

lemma fetch_timelines_not_Nil:
  "fetch_timelines net m mr st et handles tweets log = (Inr d, log') \<Longrightarrow> tweets \<noteq> [] \<Longrightarrow>
     d \<noteq> []"
proof (induction handles arbitrary: tweets log)
  case Nil
  then show ?case by simp
next
  case (Cons handle handles)
  show ?case
  proof (cases "or_empty (map_of m (lower (lstrip_chars ''@'' handle))) = []")
    case True
    then have "fetch_timelines net m mr st et handles tweets log = (Inr d, log')"
      using Cons.prems(1) by (simp add: Let_def)
    then show ?thesis using Cons.IH Cons.prems(2) by blast
  next
    case False
    then obtain body log1 where
      "fetch_timelines net m mr st et handles
         (dict_set tweets handle (map tweet_from_api (tw_data body))) log1 = (Inr d, log')"
      using Cons.prems(1)
      by (auto simp: Let_def split: prod.splits sum.splits option.splits)
    from Cons.IH[OF this] show ?thesis by (simp add: dict_set_not_Nil)
  qed
qed

lemma fetch_recent_tweets_not_Nil:
  assumes "fst (fetch_recent_tweets L net handles tok mr st et log) = Inr d" and "handles \<noteq> []"
  shows "d \<noteq> []"
proof -
  obtain m log1 log' where
    "fetch_timelines net m mr st et handles (empty_timelines handles []) log1 = (Inr d, log')"
    using assms(1)
    by (cases "fetch_recent_tweets L net handles tok mr st et log")
       (auto simp: fetch_recent_tweets_def split: sum.splits prod.splits)
  from fetch_timelines_not_Nil[OF this] show ?thesis
    using empty_timelines_not_Nil[of handles "[]"] assms(2) by simp
qed

lemma strip_trimmed: "trimmed s \<Longrightarrow> strip s = s"
proof (cases "s = []")
  case True
  then show ?thesis by (simp add: strip_def lstrip_def rstrip_def)
next
  case False
  assume "trimmed s"
  then have h: "\<not> isspace (hd s)" and l: "\<not> isspace (last s)"
    using False by (simp_all add: trimmed_def)
  have a: "lstrip s = s" using h False by (cases s) (simp_all add: lstrip_def)
  obtain c cs where r: "rev s = c # cs" using False by (cases "rev s") auto
  have "c = last s" using r False by (metis hd_rev list.sel(1))
  then have "dropWhile isspace (rev s) = rev s"
    using l unfolding r by simp
  then have b: "rstrip s = s" by (simp add: rstrip_def)
  show ?thesis by (simp add: strip_def a b)
qed

lemma parse_handles_items:
  "h \<in> set (parse_handles v) \<Longrightarrow> h \<noteq> [] \<and> strip h \<noteq> []"
proof -
  assume "h \<in> set (parse_handles v)"
  then obtain item where i: "h = strip item" "strip item \<noteq> []"
    by (auto simp: parse_handles_def split: if_splits)
  have "strip h = h" unfolding i(1) by (rule strip_trimmed[OF trimmed_strip])
  then show ?thesis using i by simp
qed

lemma collect_twitter_data_not_Nil:
  assumes "fst (collect_twitter_data L net (parse_handles v) log) = Inr d"
      and "parse_handles v \<noteq> []"
  shows "d \<noteq> []"
proof -
  let ?hs = "map strip (filter (\<lambda>handle. handle \<noteq> [] \<and> strip handle \<noteq> []) (parse_handles v))"
  have "filter (\<lambda>handle. handle \<noteq> [] \<and> strip handle \<noteq> []) (parse_handles v) = parse_handles v"
    using parse_handles_items by (intro filter_True) blast
  then have n: "?hs \<noteq> []" using assms(2) by simp
  then have "fst (fetch_recent_tweets L net ?hs None 10 None None log) = Inr d"
    using assms(1) by (simp add: collect_twitter_data_def Let_def)
  from fetch_recent_tweets_not_Nil[OF this n] show ?thesis .
qed

lemma fetch_listings_not_Nil:
  "fetch_listings L net limit targets results log = (Inr d, log') \<Longrightarrow>
     targets \<noteq> [] \<or> results \<noteq> [] \<Longrightarrow> d \<noteq> []"
proof (induction targets arbitrary: results log)
  case Nil
  then show ?case by simp
next
  case (Cons target targets)
  obtain key path where t: "target = (key, path)" by (cases target)
  obtain posts log1 where
    "fetch_listings L net limit targets (dict_set results key posts) log1 = (Inr d, log')"
    using Cons.prems(1) unfolding t by (auto split: prod.splits sum.splits)
  from Cons.IH[OF this] show ?case by (simp add: dict_set_not_Nil)
qed

lemma collect_reddit_data_not_Nil:
  assumes "fst (collect_reddit_data L net subs users limit log) = Inr d"
      and "subs \<noteq> [] \<or> users \<noteq> []"
  shows "d \<noteq> []"
proof -
  obtain log' where
    "fetch_listings L net limit (map subreddit_target subs @ map user_target users) [] log =
       (Inr d, log')"
    using assms(1)
    by (cases "fetch_listings L net limit (map subreddit_target subs @ map user_target users) [] log")
       (simp add: collect_reddit_data_def fetch_reddit_updates_def)
  from fetch_listings_not_Nil[OF this] show ?thesis using assms(2) by simp
qed

text \<open>
  C1, as stated, fails: the collectors are guarded, the renderers are not. In the run
  below the economic collector fails and the Reddit collector delivers a post whose
  \<open>created_utc\<close> lies beyond year 9999; every collector is invoked, and then \<open>main\<close> ends
  with the ValueError of the Reddit renderer and writes no report.
\<close>

theorem renderer_failure_aborts_run:
  "fst (economic_collector millisecond_reddit (start example_args) (lookahead example_args) []) =
     Inl (Exn RequestException ''connection refused'') \<and>
   main_with millisecond_reddit example_lib example_now example_args [] =
     (Inl (Exn ValueError ''year is out of range''),
      \<lparr>stderr = [''Failed to fetch economic data: connection refused''],
       stdout = [], files = []\<rparr>,
      [''economic'', ''earnings'', ''twitter'', ''reddit''])"
  by code_simp

text \<open>
  C1, as the code has it. Whatever the four collectors do, raise or return, \<open>main\<close> runs
  every enabled collector, each on the world that the ones before it left: the final
  world is the one after the last enabled collector, and a collector that raised leaves
  one line on the diagnostic stream. When the \<open>created_utc\<close> of every post that the Reddit
  collector delivered is absent or within the years 1..9999, \<open>main\<close> returns exit status
  0 and writes the document to the output path, with the section of a source exactly
  when the source is enabled. A Reddit collector that failed has delivered no post.
\<close>

theorem collector_failure_does_not_abort:
  "snd (snd (main_with C L now a w0)) = reddit_world C a w0 \<and>
   (economic_enabled a \<and> earnings_enabled a \<and> twitter_enabled a \<and> reddit_enabled a \<longrightarrow>
      reddit_world C a w0 =
        snd (reddit_call C a
          (snd (twitter_collector C (parse_handles (twitter a))
            (snd (earnings_collector C (start a) (lookahead a)
              (snd (economic_collector C (start a) (lookahead a) w0)))))))) \<and>
   stderr (fst (snd (main_with C L now a w0))) = diagnostics C a w0 \<and>
   ((\<forall>posts. reddit_enabled a \<and> fst (reddit_call C a (twitter_world C a w0)) = Inr posts \<longrightarrow>
              posts_ok posts) \<longrightarrow>
      main_with C L now a w0 =
        (Inr 0,
         \<lparr>stderr = diagnostics C a w0,
          stdout = [''Report written to '' @ output_path a],
          files = [(output_path a,
                    document L now
                      (map_option (events_to_markdown L) (economic_section C a w0))
                      (map_option (earnings_to_markdown L) (earnings_section C a w0))
                      (map_option tweets_to_markdown (twitter_section C a w0))
                      (map_option (reddit_fragment L) (reddit_section C a w0)))]\<rparr>,
         reddit_world C a w0)) \<and>
   (economic_section C a w0 \<noteq> None \<longleftrightarrow> economic_enabled a) \<and>
   (earnings_section C a w0 \<noteq> None \<longleftrightarrow> earnings_enabled a) \<and>
   (twitter_section C a w0 \<noteq> None \<longleftrightarrow> twitter_enabled a) \<and>
   (reddit_section C a w0 \<noteq> None \<longleftrightarrow> reddit_enabled a) \<and>
   (fst (reddit_call C a (twitter_world C a w0)) = Inl exc \<longrightarrow>
      (\<forall>posts. reddit_enabled a \<and> fst (reddit_call C a (twitter_world C a w0)) = Inr posts \<longrightarrow>
               posts_ok posts))"
proof -
  have c2: "economic_enabled a \<and> earnings_enabled a \<and> twitter_enabled a \<and> reddit_enabled a \<longrightarrow>
      reddit_world C a w0 =
        snd (reddit_call C a
          (snd (twitter_collector C (parse_handles (twitter a))
            (snd (earnings_collector C (start a) (lookahead a)
              (snd (economic_collector C (start a) (lookahead a) w0)))))))"
    using reddit_world_all_enabled[of a C w0] by blast
  have c4: "(\<forall>posts. reddit_enabled a \<and> fst (reddit_call C a (twitter_world C a w0)) = Inr posts \<longrightarrow>
              posts_ok posts) \<longrightarrow>
      main_with C L now a w0 =
        (Inr 0,
         \<lparr>stderr = diagnostics C a w0,
          stdout = [''Report written to '' @ output_path a],
          files = [(output_path a,
                    document L now
                      (map_option (events_to_markdown L) (economic_section C a w0))
                      (map_option (earnings_to_markdown L) (earnings_section C a w0))
                      (map_option tweets_to_markdown (twitter_section C a w0))
                      (map_option (reddit_fragment L) (reddit_section C a w0)))]\<rparr>,
         reddit_world C a w0)"
    using main_with_document[of a C w0 L now] by blast
  have c5: "(economic_section C a w0 \<noteq> None \<longleftrightarrow> economic_enabled a) \<and>
   (earnings_section C a w0 \<noteq> None \<longleftrightarrow> earnings_enabled a) \<and>
   (twitter_section C a w0 \<noteq> None \<longleftrightarrow> twitter_enabled a) \<and>
   (reddit_section C a w0 \<noteq> None \<longleftrightarrow> reddit_enabled a)"
    by (simp add: economic_section_def earnings_section_def twitter_section_def
          reddit_section_def section_input_None)
  have c6: "fst (reddit_call C a (twitter_world C a w0)) = Inl exc \<longrightarrow>
      (\<forall>posts. reddit_enabled a \<and> fst (reddit_call C a (twitter_world C a w0)) = Inr posts \<longrightarrow>
               posts_ok posts)"
    by simp
  show ?thesis
    using main_with_world[of C L now a w0] c2 main_with_stderr[of C L now a w0] c4 c5 c6
    by blast
qed


theorem collector_failure_does_not_abort_witness:
  "fst (economic_collector failing_economic (start example_args) (lookahead example_args) []) =
     Inl (Exn RequestException ''connection refused'') \<and>
   fst (reddit_call failing_economic example_args
          (twitter_world failing_economic example_args [])) = Inr example_posts \<and>
   posts_ok example_posts \<and>
   main_with failing_economic example_lib example_now example_args [] =
     (Inr 0,
      \<lparr>stderr = [''Failed to fetch economic data: connection refused''],
       stdout = [''Report written to market_report.md''],
       files = [(''market_report.md'', degraded_report)]\<rparr>,
      [''economic'', ''earnings'', ''twitter'', ''reddit''])"
proof -
  have f: "fst (economic_collector failing_economic (start example_args)
                  (lookahead example_args) []) =
             Inl (Exn RequestException ''connection refused'')"
    by (simp add: failing_economic_def)
  have rc: "fst (reddit_call failing_economic example_args
                   (twitter_world failing_economic example_args [])) = Inr example_posts"
    by (simp add: reddit_call_def failing_economic_def)
  have h: "\<forall>posts. reddit_enabled example_args \<and>
             fst (reddit_call failing_economic example_args
                    (twitter_world failing_economic example_args [])) = Inr posts \<longrightarrow>
             posts_ok posts"
    using rc example_posts_ok by simp
  have w: "reddit_world failing_economic example_args [] =
             [''economic'', ''earnings'', ''twitter'', ''reddit'']"
    by code_simp
  have d: "diagnostics failing_economic example_args [] =
             [''Failed to fetch economic data: connection refused'']"
    by code_simp
  have o: "output_path example_args = ''market_report.md''"
    by (simp add: example_args_def)
  have doc: "document example_lib example_now
               (map_option (events_to_markdown example_lib)
                  (economic_section failing_economic example_args []))
               (map_option (earnings_to_markdown example_lib)
                  (earnings_section failing_economic example_args []))
               (map_option tweets_to_markdown (twitter_section failing_economic example_args []))
               (map_option (reddit_fragment example_lib)
                  (reddit_section failing_economic example_args [])) = degraded_report"
    by code_simp
  note t = collector_failure_does_not_abort[of failing_economic example_lib example_now
             example_args "[]"]
  have "main_with failing_economic example_lib example_now example_args [] =
     (Inr 0,
      \<lparr>stderr = [''Failed to fetch economic data: connection refused''],
       stdout = [''Report written to market_report.md''],
       files = [(''market_report.md'', degraded_report)]\<rparr>,
      [''economic'', ''earnings'', ''twitter'', ''reddit''])"
    using t h unfolding w d o doc by simp
  then show ?thesis
    using f rc example_posts_ok by blast
qed

end
